theory Spec2Isabelle
  imports Main "HOL-Library.FSet" "HOL-Library.List_Lexorder" "HOL-Library.Char_ord"
begin

section \<open>Data model of \<open>scripts/manifest.py\<close>\<close>

text \<open>
  Identifiers are Python \<open>str\<close> values, here \<open>string\<close>; \<open>sorted\<close> on them is the lexicographic
  order on character codes, which is the order of \<open>HOL-Library.List_Lexorder\<close> over
  \<open>HOL-Library.Char_ord\<close>. A Python \<open>set[str]\<close> is always finite: it is a \<open>string fset\<close>.
\<close>

text \<open>The dataclass \<open>SystemState\<close>; every field defaults to the empty set.\<close>

record SystemState =
  packages :: "string fset"
  groups :: "string fset"
  flatpaks :: "string fset"
  copr_repos :: "string fset"

definition SystemState_default :: SystemState where
  "SystemState_default =
     \<lparr>packages = {||}, groups = {||}, flatpaks = {||}, copr_repos = {||}\<rparr>"

text \<open>
  The manifest is the nested dictionary that \<open>tomllib.load\<close> returns. Every table and every key
  of a table may be absent (\<open>None\<close>); the record fields are the keys the program reads or writes.
  Keys whose name occurs twice in the document carry the name of their table as a prefix.
\<close>

record meta_table =
  hostname :: "string option"
  updated :: "string option"
  managed_by :: "string option"

record packages_table =
  system :: "string list option"
  optional :: "string list option"
  packages_groups :: "string list option"

record flatpak_table =
  flatpak_packages :: "string list option"

record copr_table =
  repos :: "string list option"

record excluded_table =
  excluded_packages :: "string list option"

record manifest =
  m_meta :: "meta_table option"
  m_packages :: "packages_table option"
  m_flatpak :: "flatpak_table option"
  m_copr :: "copr_table option"
  m_excluded :: "excluded_table option"

text \<open>The empty dictionary \<open>{}\<close> used as a default for a missing table.\<close>

definition empty_packages :: packages_table where
  "empty_packages = \<lparr>system = None, optional = None, packages_groups = None\<rparr>"

definition empty_flatpak :: flatpak_table where
  "empty_flatpak = \<lparr>flatpak_packages = None\<rparr>"

definition empty_excluded :: excluded_table where
  "empty_excluded = \<lparr>excluded_packages = None\<rparr>"

text \<open>\<open>d.get(key, [])\<close> on an optional list.\<close>

definition get_list :: "string list option \<Rightarrow> string list" where
  "get_list v = (case v of None \<Rightarrow> [] | Some xs \<Rightarrow> xs)"

text \<open>\<open>manifest.get("packages", {})\<close>, \<open>manifest.get("flatpak", {})\<close>, \<open>manifest.get("excluded", {})\<close>.\<close>

definition get_packages :: "manifest \<Rightarrow> packages_table" where
  "get_packages m = (case m_packages m of None \<Rightarrow> empty_packages | Some t \<Rightarrow> t)"

definition get_flatpak :: "manifest \<Rightarrow> flatpak_table" where
  "get_flatpak m = (case m_flatpak m of None \<Rightarrow> empty_flatpak | Some t \<Rightarrow> t)"

definition get_excluded :: "manifest \<Rightarrow> excluded_table" where
  "get_excluded m = (case m_excluded m of None \<Rightarrow> empty_excluded | Some t \<Rightarrow> t)"

text \<open>The five chained reads of the program, each \<open>manifest.get(table, {}).get(key, [])\<close>.\<close>

definition decl_system :: "manifest \<Rightarrow> string list" where
  "decl_system m = get_list (system (get_packages m))"

definition decl_optional :: "manifest \<Rightarrow> string list" where
  "decl_optional m = get_list (optional (get_packages m))"

definition decl_groups :: "manifest \<Rightarrow> string list" where
  "decl_groups m = get_list (packages_groups (get_packages m))"

definition decl_flatpaks :: "manifest \<Rightarrow> string list" where
  "decl_flatpaks m = get_list (flatpak_packages (get_flatpak m))"

definition decl_excluded :: "manifest \<Rightarrow> string list" where
  "decl_excluded m = get_list (excluded_packages (get_excluded m))"

text \<open>
  \<open>load_manifest\<close>: the stored document of the host, or the empty template when the file does
  not exist. The store maps a host name to the parsed document; \<open>now\<close> is the clock's
  \<open>datetime.now(timezone.utc).isoformat()\<close>.
\<close>

definition load_manifest :: "(string \<rightharpoonup> manifest) \<Rightarrow> string \<Rightarrow> string \<Rightarrow> manifest" where
  "load_manifest store host now =
     (case store host of
        None \<Rightarrow>
          \<lparr>m_meta = Some \<lparr>hostname = Some host, updated = Some now, managed_by = Some ''dnf''\<rparr>,
           m_packages = Some \<lparr>system = Some [], optional = Some [], packages_groups = Some []\<rparr>,
           m_flatpak = Some \<lparr>flatpak_packages = Some []\<rparr>,
           m_copr = Some \<lparr>repos = Some []\<rparr>,
           m_excluded = Some \<lparr>excluded_packages = Some []\<rparr>\<rparr>
      | Some m \<Rightarrow> m)"

section \<open>Printed lines\<close>

text \<open>
  One constructor for each \<open>print\<close> of the program, carrying the values its f-string
  interpolates; \<open>Warning_dnf\<close> is the one line written to standard error.
\<close>

datatype message =
    Host string
  | Manifest_packages nat
  | System_packages nat
  | Blank
  | Missing_from_system nat
  | Minus string
  | Extra_on_system nat
  | Plus string
  | And_more nat
  | Missing_flatpaks nat
  | Extra_flatpaks nat
  | System_matches
  | Adding_packages nat
  | Adding_flatpaks nat
  | Saved string
  | Nothing_to_install
  | Installing_dnf nat
  | Plain string
  | Installing_flatpaks nat
  | Dry_run_note
  | Warning_dnf

section \<open>\<open>status\<close>\<close>

text \<open>
  \<open>status(hostname)\<close> after its two first statements, which bind \<open>manifest\<close> and \<open>state\<close>.
  The result holds the four drift sets, the lines printed and the value returned (the exit code).
\<close>

record status_run =
  st_missing :: "string fset"
  st_extra :: "string fset"
  st_missing_flatpaks :: "string fset"
  st_extra_flatpaks :: "string fset"
  st_stdout :: "message list"
  st_exit :: int

definition status :: "string \<Rightarrow> manifest \<Rightarrow> SystemState \<Rightarrow> status_run" where
  "status host manifest state =
     (let declared_system = fset_of_list (decl_system manifest);
          declared_pkgs = declared_system |\<union>| fset_of_list (decl_optional manifest);
          excluded = fset_of_list (decl_excluded manifest);
          missing = declared_pkgs |-| packages state;
          extra = packages state |-| declared_pkgs |-| excluded;
          out_head = [Host host, Manifest_packages (fcard declared_pkgs),
                      System_packages (fcard (packages state)), Blank];
          out_missing =
            (if missing \<noteq> {||}
             then [Missing_from_system (fcard missing)]
                  @ map Minus (sorted_list_of_fset missing) @ [Blank]
             else []);
          out_extra =
            (if extra \<noteq> {||}
             then [Extra_on_system (fcard extra)]
                  @ map Plus (take 30 (sorted_list_of_fset extra))
                  @ (if fcard extra > 30 then [And_more (fcard extra - 30)] else [])
                  @ [Blank]
             else []);
          declared_flatpaks = fset_of_list (decl_flatpaks manifest);
          missing_flatpaks = declared_flatpaks |-| flatpaks state;
          extra_flatpaks = flatpaks state |-| declared_flatpaks;
          out_missing_flatpaks =
            (if missing_flatpaks \<noteq> {||}
             then [Missing_flatpaks (fcard missing_flatpaks)]
                  @ map Minus (sorted_list_of_fset missing_flatpaks) @ [Blank]
             else []);
          out_extra_flatpaks =
            (if extra_flatpaks \<noteq> {||}
             then [Extra_flatpaks (fcard extra_flatpaks)]
                  @ map Plus (sorted_list_of_fset extra_flatpaks) @ [Blank]
             else []);
          out = out_head @ out_missing @ out_extra @ out_missing_flatpaks @ out_extra_flatpaks
      in if missing = {||} \<and> extra = {||} \<and> missing_flatpaks = {||}
         then \<lparr>st_missing = missing, st_extra = extra,
               st_missing_flatpaks = missing_flatpaks, st_extra_flatpaks = extra_flatpaks,
               st_stdout = out @ [System_matches], st_exit = 0\<rparr>
         else \<lparr>st_missing = missing, st_extra = extra,
               st_missing_flatpaks = missing_flatpaks, st_extra_flatpaks = extra_flatpaks,
               st_stdout = out,
               st_exit = (if missing \<noteq> {||} \<or> missing_flatpaks \<noteq> {||} then 1 else 0)\<rparr>)"

section \<open>\<open>pull\<close>\<close>

text \<open>The exceptions that the program's own statements and \<open>subprocess.run\<close> raise.\<close>

datatype error =
    CalledProcessError
  | FileNotFoundError
  | PermissionError
  | UnicodeDecodeError
  | IndexError
  | KeyError

text \<open>
  \<open>save_manifest\<close>: \<open>manifest["meta"]["updated"] = now\<close> raises \<open>KeyError\<close> when the document has no
  \<open>meta\<close> table; otherwise the stamped document is written to the host's file and one line is
  printed. The value returned here is the document written and that line.
\<close>

definition save_manifest :: "string \<Rightarrow> manifest \<Rightarrow> string \<Rightarrow> error + (manifest \<times> message list)" where
  "save_manifest host manifest now =
     (case m_meta manifest of
        None \<Rightarrow> Inl KeyError
      | Some t \<Rightarrow> Inr (manifest\<lparr>m_meta := Some (t\<lparr>updated := Some now\<rparr>)\<rparr>, [Saved host]))"

text \<open>
  \<open>manifest.setdefault("packages", {}); manifest["packages"]["optional"] = xs\<close> and the same
  two statements for \<open>manifest["flatpak"]["packages"]\<close>.
\<close>

definition set_optional :: "manifest \<Rightarrow> string list \<Rightarrow> manifest" where
  "set_optional m xs = m\<lparr>m_packages := Some ((get_packages m)\<lparr>optional := Some xs\<rparr>)\<rparr>"

definition set_flatpak_packages :: "manifest \<Rightarrow> string list \<Rightarrow> manifest" where
  "set_flatpak_packages m xs =
     m\<lparr>m_flatpak := Some ((get_flatpak m)\<lparr>flatpak_packages := Some xs\<rparr>)\<rparr>"

text \<open>
  \<open>pull(hostname)\<close> after its two first statements. \<open>pl_result\<close> is the document that
  \<open>save_manifest\<close> writes, or the exception that ends the run.
\<close>

record pull_run =
  pl_new_packages :: "string fset"
  pl_new_flatpaks :: "string fset"
  pl_stdout :: "message list"
  pl_result :: "error + manifest"

definition pull :: "string \<Rightarrow> manifest \<Rightarrow> SystemState \<Rightarrow> string \<Rightarrow> pull_run" where
  "pull host manifest state now =
     (let current_system = fset_of_list (decl_system manifest);
          current_optional = fset_of_list (decl_optional manifest);
          excluded = fset_of_list (decl_excluded manifest);
          all_declared = current_system |\<union>| current_optional;
          new_packages = packages state |-| all_declared |-| excluded;
          out_packages =
            (if new_packages \<noteq> {||}
             then [Adding_packages (fcard new_packages)]
                  @ map Plus (take 15 (sorted_list_of_fset new_packages))
                  @ (if fcard new_packages > 15 then [And_more (fcard new_packages - 15)] else [])
             else []);
          manifest1 =
            (if new_packages \<noteq> {||}
             then set_optional manifest (sorted_list_of_fset (current_optional |\<union>| new_packages))
             else manifest);
          current_flatpaks = fset_of_list (decl_flatpaks manifest1);
          new_flatpaks = flatpaks state |-| current_flatpaks;
          out_flatpaks =
            (if new_flatpaks \<noteq> {||}
             then [Adding_flatpaks (fcard new_flatpaks)]
                  @ map Plus (sorted_list_of_fset new_flatpaks)
             else []);
          manifest2 =
            (if new_flatpaks \<noteq> {||}
             then set_flatpak_packages manifest1
                    (sorted_list_of_fset (current_flatpaks |\<union>| new_flatpaks))
             else manifest1)
      in case save_manifest host manifest2 now of
           Inl e \<Rightarrow>
             \<lparr>pl_new_packages = new_packages, pl_new_flatpaks = new_flatpaks,
              pl_stdout = out_packages @ out_flatpaks, pl_result = Inl e\<rparr>
         | Inr (written, out_saved) \<Rightarrow>
             \<lparr>pl_new_packages = new_packages, pl_new_flatpaks = new_flatpaks,
              pl_stdout = out_packages @ out_flatpaks @ out_saved, pl_result = Inr written\<rparr>)"

section \<open>Running external programs\<close>

text \<open>
  What the operating system answers to \<open>subprocess.run(cmd, ...)\<close>. The program \<open>cmd[0]\<close> is
  found or not; a program that is found either cannot be started (\<open>PermissionDenied\<close>, which
  stands for every \<open>OSError\<close> other than \<open>FileNotFoundError\<close>) or runs and ends with a return
  code and a standard output, \<open>None\<close> when its bytes are not decodable text.
\<close>

datatype proc = PermissionDenied | Completed int "string option"

record os =
  found :: "string \<Rightarrow> bool"
  outcome :: "string list \<Rightarrow> proc"

text \<open>
  \<open>subprocess.run(cmd, check=check)\<close>, with \<open>capture_output=True, text=True\<close> when \<open>capture\<close>
  holds. The output is decoded before the return code is checked. Without \<open>capture\<close> the
  output is not read (the \<open>stdout\<close> attribute is \<open>None\<close> and the program never uses it): the
  model returns the empty string for it.
\<close>

definition subprocess_run :: "os \<Rightarrow> string list \<Rightarrow> bool \<Rightarrow> bool \<Rightarrow> error + (int \<times> string)" where
  "subprocess_run env cmd capture check =
     (case cmd of
        [] \<Rightarrow> Inl IndexError
      | prog # args \<Rightarrow>
          if \<not> found env prog then Inl FileNotFoundError
          else (case outcome env cmd of
                  PermissionDenied \<Rightarrow> Inl PermissionError
                | Completed rc out \<Rightarrow>
                    (case (if capture then out else Some []) of
                       None \<Rightarrow> Inl UnicodeDecodeError
                     | Some text \<Rightarrow>
                         if check \<and> rc \<noteq> 0 then Inl CalledProcessError else Inr (rc, text))))"

definition run_cmd :: "os \<Rightarrow> string list \<Rightarrow> bool \<Rightarrow> error + (int \<times> string)" where
  "run_cmd env cmd check = subprocess_run env cmd True check"

section \<open>\<open>apply\<close> and \<open>diff\<close>\<close>

text \<open>
  The loop \<open>for flatpak in sorted(missing_flatpaks): subprocess.run([...], check=True)\<close>: the
  calls made, in order, and the exception of the first call that fails, after which no
  further call is made.
\<close>

fun install_flatpaks :: "os \<Rightarrow> string list \<Rightarrow> string list list \<times> error option" where
  "install_flatpaks env [] = ([], None)"
| "install_flatpaks env (flatpak # rest) =
     (let cmd = [''flatpak'', ''install'', ''-y'', flatpak]
      in case subprocess_run env cmd False True of
           Inl e \<Rightarrow> ([cmd], Some e)
         | Inr r \<Rightarrow> (case install_flatpaks env rest of (calls, raised) \<Rightarrow> (cmd # calls, raised)))"

text \<open>
  \<open>apply(hostname, dry_run)\<close> after its two first statements: the two sets computed, the lines
  printed, the installer calls made (argument vectors, in order) and the exception that ended
  the run, if any.
\<close>

record apply_run =
  ap_missing :: "string fset"
  ap_missing_flatpaks :: "string fset"
  ap_stdout :: "message list"
  ap_calls :: "string list list"
  ap_raised :: "error option"

definition apply_cmd :: "manifest \<Rightarrow> SystemState \<Rightarrow> bool \<Rightarrow> os \<Rightarrow> apply_run" where
  "apply_cmd manifest state dry_run env =
     (let declared_pkgs = fset_of_list (decl_system manifest);
          missing = declared_pkgs |-| packages state;
          declared_groups = fset_of_list (decl_groups manifest);
          declared_flatpaks = fset_of_list (decl_flatpaks manifest);
          missing_flatpaks = declared_flatpaks |-| flatpaks state;
          run0 = \<lparr>ap_missing = missing, ap_missing_flatpaks = missing_flatpaks,
                  ap_stdout = [], ap_calls = [], ap_raised = None\<rparr>
      in if missing = {||} \<and> missing_flatpaks = {||}
         then run0\<lparr>ap_stdout := [Nothing_to_install]\<rparr>
         else
           let out1 = (if missing \<noteq> {||}
                       then [Installing_dnf (fcard missing)]
                            @ map Plain (sorted_list_of_fset missing)
                       else []);
               dnf_cmd = [''sudo'', ''dnf'', ''install'', ''-y''] @ sorted_list_of_fset missing;
               (calls1, raised1) =
                 (if missing \<noteq> {||} \<and> \<not> dry_run
                  then (case subprocess_run env dnf_cmd False True of
                          Inl e \<Rightarrow> ([dnf_cmd], Some e)
                        | Inr r \<Rightarrow> ([dnf_cmd], None))
                  else ([], None))
           in case raised1 of
                Some e \<Rightarrow> run0\<lparr>ap_stdout := out1, ap_calls := calls1, ap_raised := Some e\<rparr>
              | None \<Rightarrow>
                 (let out2 = (if missing_flatpaks \<noteq> {||}
                              then [Installing_flatpaks (fcard missing_flatpaks)]
                                   @ map Plain (sorted_list_of_fset missing_flatpaks)
                              else []);
                      (calls2, raised2) =
                        (if missing_flatpaks \<noteq> {||} \<and> \<not> dry_run
                         then install_flatpaks env (sorted_list_of_fset missing_flatpaks)
                         else ([], None))
                  in (case raised2 of
                        Some e \<Rightarrow> run0\<lparr>ap_stdout := out1 @ out2, ap_calls := calls1 @ calls2,
                                       ap_raised := Some e\<rparr>
                      | None \<Rightarrow> run0\<lparr>ap_stdout := out1 @ out2 @ (if dry_run then [Dry_run_note] else []),
                                     ap_calls := calls1 @ calls2\<rparr>)))"

text \<open>The dispatch of \<open>main\<close>: \<open>diff\<close> is \<open>apply(args.host, dry_run=True)\<close>.\<close>

definition diff :: "manifest \<Rightarrow> SystemState \<Rightarrow> os \<Rightarrow> apply_run" where
  "diff manifest state env = apply_cmd manifest state True env"

section \<open>\<open>get_system_state\<close>\<close>

text \<open>
  The string methods the probe uses, on text whose code points are below 256 (a \<open>char\<close> is
  one code point): \<open>str.strip()\<close>, \<open>str.split(sep)\<close> with a
  one-character separator, \<open>str.lower()\<close>, \<open>str.startswith(prefix)\<close>, \<open>str.replace(old, new)\<close>
  with a non-empty \<open>old\<close> (both uses have one), and \<open>Path.stem\<close> of a file name.
\<close>

definition is_space :: "char \<Rightarrow> bool" where
  "is_space c =
     (let n = (of_char c :: nat)
      in (9 \<le> n \<and> n \<le> 13) \<or> (28 \<le> n \<and> n \<le> 32) \<or> n = 133 \<or> n = 160)"

definition str_strip :: "string \<Rightarrow> string" where
  "str_strip s = rev (dropWhile is_space (rev (dropWhile is_space s)))"

fun str_split :: "char \<Rightarrow> string \<Rightarrow> string list" where
  "str_split sep [] = [[]]"
| "str_split sep (c # cs) =
     (if c = sep then [] # str_split sep cs
      else (case str_split sep cs of [] \<Rightarrow> [[c]] | w # ws \<Rightarrow> (c # w) # ws))"

definition lower_char :: "char \<Rightarrow> char" where
  "lower_char c =
     (let n = (of_char c :: nat)
      in if (65 \<le> n \<and> n \<le> 90) \<or> (192 \<le> n \<and> n \<le> 222 \<and> n \<noteq> 215) then char_of (n + 32)
         else c)"

definition str_lower :: "string \<Rightarrow> string" where
  "str_lower s = map lower_char s"

fun str_startswith :: "string \<Rightarrow> string \<Rightarrow> bool" where
  "str_startswith [] s = True"
| "str_startswith (p # ps) [] = False"
| "str_startswith (p # ps) (c # cs) = (p = c \<and> str_startswith ps cs)"

function str_replace :: "string \<Rightarrow> string \<Rightarrow> string \<Rightarrow> string" where
  "str_replace old new [] = []"
| "str_replace old new (c # cs) =
     (if old \<noteq> [] \<and> str_startswith old (c # cs)
      then new @ str_replace old new (drop (length old) (c # cs))
      else c # str_replace old new cs)"
  by pat_completeness auto
termination
  by (relation "measure (\<lambda>(old, new, s). length s)") (auto simp: neq_Nil_conv)

definition stem :: "string \<Rightarrow> string" where
  "stem name =
     (let i = length name - length (takeWhile (\<lambda>c. c \<noteq> CHR ''.'') (rev name)) - 1
      in if CHR ''.'' \<in> set name \<and> 0 < i \<and> i < length name - 1 then take i name else name)"

text \<open>The three argument vectors of the probe, and the parsing of a listing into a set.\<close>

definition dnf_query :: "string list" where
  "dnf_query = [''dnf'', ''repoquery'', ''--userinstalled'', ''--qf'', ''%{name}'']"

definition groups_query :: "string list" where
  "groups_query = [''dnf'', ''group'', ''list'', ''--installed'', ''-q'']"

definition flatpak_query :: "string list" where
  "flatpak_query = [''flatpak'', ''list'', ''--app'', ''--columns=application'']"

definition listing :: "string \<Rightarrow> string fset" where
  "listing out = fset_of_list (str_split (CHR 0x0A) (str_strip out)) |-| {|[]|}"

text \<open>
  The four blocks of \<open>get_system_state\<close>. An exception that the block's \<open>except\<close> clause does
  not name leaves the function (\<open>Inl\<close>). The first block also yields the warning it writes to
  standard error.
\<close>

definition probe_packages :: "os \<Rightarrow> SystemState \<Rightarrow> error + (SystemState \<times> message list)" where
  "probe_packages env state =
     (case run_cmd env dnf_query True of
        Inr (rc, out) \<Rightarrow> Inr (state\<lparr>packages := listing out\<rparr>, [])
      | Inl e \<Rightarrow>
          if e = CalledProcessError \<or> e = FileNotFoundError then Inr (state, [Warning_dnf])
          else Inl e)"

definition add_group :: "string \<Rightarrow> string fset \<Rightarrow> string fset" where
  "add_group line0 gs =
     (let line = str_strip line0
      in if line \<noteq> [] \<and> \<not> str_startswith ''Installed'' line
         then finsert (str_replace '' '' ''-'' (str_lower line)) gs
         else gs)"

definition probe_groups :: "os \<Rightarrow> SystemState \<Rightarrow> error + SystemState" where
  "probe_groups env state =
     (case run_cmd env groups_query False of
        Inr (rc, out) \<Rightarrow>
          Inr (state\<lparr>groups := fold add_group (str_split (CHR 0x0A) (str_strip out)) (groups state)\<rparr>)
      | Inl e \<Rightarrow> if e = FileNotFoundError then Inr state else Inl e)"

definition probe_flatpaks :: "os \<Rightarrow> SystemState \<Rightarrow> error + SystemState" where
  "probe_flatpaks env state =
     (case run_cmd env flatpak_query False of
        Inr (rc, out) \<Rightarrow> Inr (if rc = 0 then state\<lparr>flatpaks := listing out\<rparr> else state)
      | Inl e \<Rightarrow> if e = FileNotFoundError then Inr state else Inl e)"

text \<open>
  \<open>copr\<close> is \<open>None\<close> when \<open>/etc/yum.repos.d\<close> does not exist, and otherwise the names of the
  files that \<open>glob("_copr*.repo")\<close> yields there.
\<close>

definition add_copr :: "string \<Rightarrow> string fset \<Rightarrow> string fset" where
  "add_copr f rs = finsert (str_replace ''_copr_'' [] (str_replace ''_copr:'' [] (stem f))) rs"

definition probe_copr :: "string list option \<Rightarrow> SystemState \<Rightarrow> SystemState" where
  "probe_copr copr state =
     (case copr of
        None \<Rightarrow> state
      | Some files \<Rightarrow> state\<lparr>copr_repos := fold add_copr files (copr_repos state)\<rparr>)"

text \<open>The snapshot and the lines written to standard error, or the exception that escapes.\<close>

definition get_system_state :: "os \<Rightarrow> string list option \<Rightarrow> error + (SystemState \<times> message list)" where
  "get_system_state env copr =
     (case probe_packages env SystemState_default of
        Inl e \<Rightarrow> Inl e
      | Inr (state1, err) \<Rightarrow>
          (case probe_groups env state1 of
             Inl e \<Rightarrow> Inl e
           | Inr state2 \<Rightarrow>
               (case probe_flatpaks env state2 of
                  Inl e \<Rightarrow> Inl e
                | Inr state3 \<Rightarrow> Inr (probe_copr copr state3, err))))"

section \<open>Conditions on the environment\<close>

text \<open>
  The cases the claims distinguish, read off the environment. For a query of the probe: its
  tool is absent; it ends with a non-zero return code; it runs to its end with a decodable
  output, and that output. A probe has failed when its tool is absent or its query ends with
  a non-zero return code.
\<close>

definition tool_absent :: "os \<Rightarrow> string list \<Rightarrow> bool" where
  "tool_absent env cmd = (case cmd of [] \<Rightarrow> False | prog # args \<Rightarrow> \<not> found env prog)"

definition exit_nonzero :: "os \<Rightarrow> string list \<Rightarrow> bool" where
  "exit_nonzero env cmd =
     (case outcome env cmd of PermissionDenied \<Rightarrow> False | Completed rc out \<Rightarrow> rc \<noteq> 0)"

definition ran :: "os \<Rightarrow> string list \<Rightarrow> bool" where
  "ran env cmd =
     (case outcome env cmd of PermissionDenied \<Rightarrow> False | Completed rc out \<Rightarrow> out \<noteq> None)"

definition stdout_of :: "os \<Rightarrow> string list \<Rightarrow> string" where
  "stdout_of env cmd =
     (case outcome env cmd of
        PermissionDenied \<Rightarrow> []
      | Completed rc out \<Rightarrow> (case out of None \<Rightarrow> [] | Some text \<Rightarrow> text))"

definition failed :: "os \<Rightarrow> string list \<Rightarrow> bool" where
  "failed env cmd = (tool_absent env cmd \<or> exit_nonzero env cmd)"

text \<open>The environment in which one program is no longer found and nothing else has changed.\<close>

definition without :: "string \<Rightarrow> os \<Rightarrow> os" where
  "without prog env = env\<lparr>found := (found env)(prog := False)\<rparr>"

text \<open>
  For an installer call of \<open>apply\<close> (\<open>check=True\<close>, output not captured): the call returns
  normally, and the exception it raises otherwise.
\<close>

definition call_ok :: "os \<Rightarrow> string list \<Rightarrow> bool" where
  "call_ok env cmd =
     (case cmd of
        [] \<Rightarrow> False
      | prog # args \<Rightarrow>
          found env prog
          \<and> (case outcome env cmd of PermissionDenied \<Rightarrow> False | Completed rc out \<Rightarrow> rc = 0))"

definition call_error :: "os \<Rightarrow> string list \<Rightarrow> error" where
  "call_error env cmd =
     (case cmd of
        [] \<Rightarrow> IndexError
      | prog # args \<Rightarrow>
          if \<not> found env prog then FileNotFoundError
          else (case outcome env cmd of
                  PermissionDenied \<Rightarrow> PermissionError
                | Completed rc out \<Rightarrow> CalledProcessError))"

section \<open>Example inputs\<close>

text \<open>
  The manifests, snapshots and environments on which the theorems below are instantiated.
  In \<open>example_state\<close> one excluded identifier is installed as a package and another one as a
  flatpak.
\<close>

definition example_manifest :: manifest where
  "example_manifest =
     \<lparr>m_meta = Some \<lparr>hostname = Some ''box'', updated = Some ''t0'', managed_by = Some ''dnf''\<rparr>,
      m_packages = Some \<lparr>system = Some [''vim'', ''git''], optional = Some [''curl''],
                          packages_groups = Some [''development-tools'']\<rparr>,
      m_flatpak = Some \<lparr>flatpak_packages = Some [''org.gimp.GIMP'']\<rparr>,
      m_copr = None,
      m_excluded = Some \<lparr>excluded_packages = Some [''htop'', ''com.spotify.Client'']\<rparr>\<rparr>"

definition example_state :: SystemState where
  "example_state =
     \<lparr>packages = {|''git'', ''htop'', ''tmux''|}, groups = {||},
      flatpaks = {|''com.spotify.Client'', ''org.mozilla.firefox''|}, copr_repos = {||}\<rparr>"

definition converged_state :: SystemState where
  "converged_state =
     \<lparr>packages = {|''git'', ''vim'', ''curl'', ''tmux''|}, groups = {||},
      flatpaks = {|''org.gimp.GIMP'', ''org.mozilla.firefox''|}, copr_repos = {||}\<rparr>"

definition all_succeed :: os where
  "all_succeed = \<lparr>found = (\<lambda>prog. True), outcome = (\<lambda>cmd. Completed 0 (Some []))\<rparr>"

definition dnf_install_fails :: os where
  "dnf_install_fails =
     \<lparr>found = (\<lambda>prog. True),
      outcome = (\<lambda>cmd. if take 2 cmd = [''sudo'', ''dnf''] then Completed 1 (Some [])
                        else Completed 0 (Some []))\<rparr>"

definition krita_install_fails :: os where
  "krita_install_fails =
     \<lparr>found = (\<lambda>prog. True),
      outcome = (\<lambda>cmd. if cmd = [''flatpak'', ''install'', ''-y'', ''org.kde.krita'']
                        then Completed 1 (Some [])
                        else Completed 0 (Some []))\<rparr>"

definition no_flatpak_tool :: os where
  "no_flatpak_tool =
     \<lparr>found = (\<lambda>prog. prog \<noteq> ''flatpak''),
      outcome = (\<lambda>cmd.
        if cmd = dnf_query then Completed 0 (Some (''git'' @ [CHR 0x0A] @ ''vim'' @ [CHR 0x0A]))
        else if cmd = groups_query
        then Completed 0
               (Some (''Installed Groups:'' @ [CHR 0x0A] @ ''   Development Tools'' @ [CHR 0x0A]))
        else Completed 0 (Some []))\<rparr>"

definition groups_query_fails :: os where
  "groups_query_fails =
     \<lparr>found = (\<lambda>prog. True),
      outcome = (\<lambda>cmd. if cmd = groups_query then Completed 1 (Some ''Workstation'')
                        else Completed 0 (Some []))\<rparr>"

definition flatpak_not_executable :: os where
  "flatpak_not_executable =
     \<lparr>found = (\<lambda>prog. True),
      outcome = (\<lambda>cmd. if cmd = flatpak_query then PermissionDenied else Completed 0 (Some []))\<rparr>"

definition after_apply_state :: SystemState where
  "after_apply_state =
     \<lparr>packages = {|''git'', ''htop'', ''tmux'', ''vim''|}, groups = {||},
      flatpaks = {|''com.spotify.Client'', ''org.mozilla.firefox'', ''org.gimp.GIMP''|},
      copr_repos = {||}\<rparr>"

definition flatpak_only_manifest :: manifest where
  "flatpak_only_manifest =
     example_manifest\<lparr>m_packages := Some \<lparr>system = Some [], optional = Some [''curl''],
                                            packages_groups = Some [''development-tools'']\<rparr>\<rparr>"

definition missing_flatpak_state :: SystemState where
  "missing_flatpak_state =
     \<lparr>packages = {|''git'', ''vim'', ''curl'', ''tmux''|}, groups = {||},
      flatpaks = {|''org.mozilla.firefox''|}, copr_repos = {||}\<rparr>"

definition three_flatpaks_manifest :: manifest where
  "three_flatpaks_manifest =
     example_manifest\<lparr>m_flatpak := Some \<lparr>flatpak_packages =
       Some [''org.videolan.VLC'', ''org.kde.krita'', ''org.gimp.GIMP'']\<rparr>\<rparr>"

text \<open>
  The installer calls of a run in which no call fails, for a primary set and a flatpak set:
  no call for an empty primary set and one batched call for a non-empty one, then one call
  for each flatpak, in sorted order.
\<close>

definition planned_calls :: "string fset \<Rightarrow> string fset \<Rightarrow> string list list" where
  "planned_calls missing missing_flatpaks =
     (if missing = {||} then []
      else [[''sudo'', ''dnf'', ''install'', ''-y''] @ sorted_list_of_fset missing])
     @ map (\<lambda>f. [''flatpak'', ''install'', ''-y'', f]) (sorted_list_of_fset missing_flatpaks)"

section \<open>Properties of \<open>status\<close>\<close>

lemma status_sets:
  "st_missing (status h M S) =
     (fset_of_list (decl_system M) |\<union>| fset_of_list (decl_optional M)) |-| packages S"
  "st_extra (status h M S) =
     packages S |-| (fset_of_list (decl_system M) |\<union>| fset_of_list (decl_optional M))
       |-| fset_of_list (decl_excluded M)"
  "st_missing_flatpaks (status h M S) = fset_of_list (decl_flatpaks M) |-| flatpaks S"
  "st_extra_flatpaks (status h M S) = flatpaks S |-| fset_of_list (decl_flatpaks M)"
  by (simp_all add: status_def Let_def)

lemma example_decls:
  "decl_system example_manifest = [''vim'', ''git'']"
  "decl_optional example_manifest = [''curl'']"
  "decl_groups example_manifest = [''development-tools'']"
  "decl_flatpaks example_manifest = [''org.gimp.GIMP'']"
  "decl_excluded example_manifest = [''htop'', ''com.spotify.Client'']"
  by (simp_all add: example_manifest_def decl_system_def decl_optional_def decl_groups_def
      decl_flatpaks_def decl_excluded_def get_packages_def get_flatpak_def get_excluded_def
      get_list_def)

lemma example_states:
  "packages example_state = {|''git'', ''htop'', ''tmux''|}"
  "flatpaks example_state = {|''com.spotify.Client'', ''org.mozilla.firefox''|}"
  "packages converged_state = {|''git'', ''vim'', ''curl'', ''tmux''|}"
  "flatpaks converged_state = {|''org.gimp.GIMP'', ''org.mozilla.firefox''|}"
  "packages missing_flatpak_state = {|''git'', ''vim'', ''curl'', ''tmux''|}"
  "flatpaks missing_flatpak_state = {|''org.mozilla.firefox''|}"
  by (simp_all add: example_state_def converged_state_def missing_flatpak_state_def)

text \<open>
  C1. For every manifest and every observed state, the drift report of \<open>status\<close> has
  \<open>missing = (system \<union> optional) - observed\<close> and
  \<open>extra = observed - (system \<union> optional) - excluded\<close>. So the declared set for \<open>missing\<close> is
  the union of the two categories, nothing is excluded from \<open>missing\<close>, and an excluded
  identifier is never extra, also when it is installed and undeclared.
\<close>

theorem status_missing_extra:
  "st_missing (status h M S) =
     (fset_of_list (decl_system M) |\<union>| fset_of_list (decl_optional M)) |-| packages S
   \<and> st_extra (status h M S) =
     packages S |-| (fset_of_list (decl_system M) |\<union>| fset_of_list (decl_optional M))
       |-| fset_of_list (decl_excluded M)
   \<and> (x \<in> set (decl_excluded M) \<longrightarrow> x |\<notin>| st_extra (status h M S))
   \<and> ((x \<in> set (decl_system M) \<or> x \<in> set (decl_optional M)) \<and> x |\<notin>| packages S
        \<longrightarrow> x |\<in>| st_missing (status h M S))"
proof -
  have excl: "x |\<notin>| st_extra (status h M S)" if "x \<in> set (decl_excluded M)"
    using that by (simp add: status_sets fset_of_list_elem)
  have decl: "x |\<in>| st_missing (status h M S)"
    if "x \<in> set (decl_system M) \<or> x \<in> set (decl_optional M)" "x |\<notin>| packages S"
    using that by (auto simp: status_sets fset_of_list_elem)
  show ?thesis
    using excl decl by (simp add: status_sets)
qed

theorem status_missing_extra_witness:
  "st_missing (status ''box'' example_manifest example_state) = {|''curl'', ''vim''|}
   \<and> st_extra (status ''box'' example_manifest example_state) = {|''tmux''|}
   \<and> ''htop'' \<in> set (decl_excluded example_manifest)
   \<and> ''htop'' |\<in>| packages example_state
   \<and> ''htop'' |\<notin>| st_extra (status ''box'' example_manifest example_state)"
  using status_missing_extra [of "''box''" example_manifest example_state "''htop''"]
  by (auto simp: example_decls example_states)

text \<open>
  C6. With \<open>missing = (system \<union> optional) - observed\<close> and
  \<open>missing_flatpaks = flatpak.packages - observed flatpaks\<close>, \<open>status\<close> returns a non-zero exit
  code (it is 1) exactly when \<open>missing\<close> or \<open>missing_flatpaks\<close> is non-empty; when both are
  empty it returns 0, whatever the extra sets are.
\<close>

theorem status_exit_code:
  "st_exit (status h M S) =
     (if (fset_of_list (decl_system M) |\<union>| fset_of_list (decl_optional M)) |-| packages S = {||}
         \<and> fset_of_list (decl_flatpaks M) |-| flatpaks S = {||}
      then 0 else 1)
   \<and> st_missing (status h M S) =
       (fset_of_list (decl_system M) |\<union>| fset_of_list (decl_optional M)) |-| packages S
   \<and> st_missing_flatpaks (status h M S) = fset_of_list (decl_flatpaks M) |-| flatpaks S
   \<and> (st_exit (status h M S) \<noteq> 0) =
       (st_missing (status h M S) \<noteq> {||} \<or> st_missing_flatpaks (status h M S) \<noteq> {||})
   \<and> (st_missing (status h M S) = {||} \<and> st_missing_flatpaks (status h M S) = {||}
        \<longrightarrow> st_exit (status h M S) = 0)"
proof -
  let ?missing = "(fset_of_list (decl_system M) |\<union>| fset_of_list (decl_optional M)) |-| packages S"
  let ?missing_flatpaks = "fset_of_list (decl_flatpaks M) |-| flatpaks S"
  have code: "st_exit (status h M S) = (if ?missing = {||} \<and> ?missing_flatpaks = {||} then 0 else 1)"
    by (simp add: status_def Let_def)
  have sets: "st_missing (status h M S) = ?missing"
    "st_missing_flatpaks (status h M S) = ?missing_flatpaks"
    by (rule status_sets)+
  show ?thesis
    unfolding sets code by simp
qed

theorem status_exit_code_witness:
  "st_missing (status ''box'' example_manifest example_state) = {|''curl'', ''vim''|}
   \<and> st_exit (status ''box'' example_manifest example_state) = 1
   \<and> st_missing (status ''box'' example_manifest missing_flatpak_state) = {||}
   \<and> st_missing_flatpaks (status ''box'' example_manifest missing_flatpak_state) = {|''org.gimp.GIMP''|}
   \<and> st_exit (status ''box'' example_manifest missing_flatpak_state) = 1
   \<and> st_extra (status ''box'' example_manifest converged_state) = {|''tmux''|}
   \<and> st_extra_flatpaks (status ''box'' example_manifest converged_state) = {|''org.mozilla.firefox''|}
   \<and> st_missing (status ''box'' example_manifest converged_state) = {||}
   \<and> st_missing_flatpaks (status ''box'' example_manifest converged_state) = {||}
   \<and> st_exit (status ''box'' example_manifest converged_state) = 0"
proof -
  have a: "(fset_of_list (decl_system example_manifest) |\<union>| fset_of_list (decl_optional example_manifest))
             |-| packages example_state = {|''curl'', ''vim''|}"
    by (auto simp: example_decls example_states)
  have b: "(fset_of_list (decl_system example_manifest) |\<union>| fset_of_list (decl_optional example_manifest))
             |-| packages missing_flatpak_state = {||}"
    "fset_of_list (decl_flatpaks example_manifest) |-| flatpaks missing_flatpak_state
       = {|''org.gimp.GIMP''|}"
    by (auto simp: example_decls example_states)
  have c: "(fset_of_list (decl_system example_manifest) |\<union>| fset_of_list (decl_optional example_manifest))
             |-| packages converged_state = {||}"
    "fset_of_list (decl_flatpaks example_manifest) |-| flatpaks converged_state = {||}"
    by (auto simp: example_decls example_states)
  have d: "st_extra (status ''box'' example_manifest converged_state) = {|''tmux''|}"
    "st_extra_flatpaks (status ''box'' example_manifest converged_state) = {|''org.mozilla.firefox''|}"
    by (auto simp: status_sets example_decls example_states)
  note t1 = status_exit_code [of "''box''" example_manifest example_state, unfolded a]
  note t2 = status_exit_code [of "''box''" example_manifest missing_flatpak_state, unfolded b]
  note t3 = status_exit_code [of "''box''" example_manifest converged_state, unfolded c]
  from t1 have 1: "st_missing (status ''box'' example_manifest example_state) = {|''curl'', ''vim''|}"
    "st_exit (status ''box'' example_manifest example_state) = 1"
    by simp_all
  from t2 have 2: "st_missing (status ''box'' example_manifest missing_flatpak_state) = {||}"
    "st_missing_flatpaks (status ''box'' example_manifest missing_flatpak_state) = {|''org.gimp.GIMP''|}"
    "st_exit (status ''box'' example_manifest missing_flatpak_state) = 1"
    by simp_all
  from t3 have 3: "st_missing (status ''box'' example_manifest converged_state) = {||}"
    "st_missing_flatpaks (status ''box'' example_manifest converged_state) = {||}"
    "st_exit (status ''box'' example_manifest converged_state) = 0"
    by simp_all
  show ?thesis
    using 1 2 3 d by simp
qed

lemma decl_flatpaks_excluded_update:
  "decl_flatpaks (M\<lparr>m_excluded := e\<rparr>) = decl_flatpaks M"
  by (simp add: decl_flatpaks_def get_flatpak_def)

text \<open>
  C10. In \<open>status\<close> the extra flatpaks are \<open>observed flatpaks - declared flatpaks\<close>; the
  excluded list is not consulted: replacing it by any other leaves the set unchanged, and an
  observed, undeclared flatpak is extra (and printed) also when it is excluded.
\<close>

theorem status_extra_flatpaks_ignore_excluded:
  "st_extra_flatpaks (status h M S) = flatpaks S |-| fset_of_list (decl_flatpaks M)
   \<and> st_extra_flatpaks (status h (M\<lparr>m_excluded := e\<rparr>) S) = st_extra_flatpaks (status h M S)
   \<and> (x |\<in>| flatpaks S \<and> x \<notin> set (decl_flatpaks M) \<and> x \<in> set (decl_excluded M)
        \<longrightarrow> x |\<in>| st_extra_flatpaks (status h M S) \<and> Plus x \<in> set (st_stdout (status h M S)))"
proof -
  have "Plus x \<in> set (st_stdout (status h M S))"
    if "x |\<in>| flatpaks S" "x \<notin> set (decl_flatpaks M)"
  proof -
    from that have "x |\<in>| flatpaks S |-| fset_of_list (decl_flatpaks M)"
      by (simp add: fset_of_list_elem)
    then show ?thesis
      by (auto simp: status_def Let_def)
  qed
  then show ?thesis
    by (auto simp: status_sets decl_flatpaks_excluded_update fset_of_list_elem)
qed

theorem status_extra_flatpaks_ignore_excluded_witness:
  "''com.spotify.Client'' |\<in>| flatpaks example_state
   \<and> ''com.spotify.Client'' \<notin> set (decl_flatpaks example_manifest)
   \<and> ''com.spotify.Client'' \<in> set (decl_excluded example_manifest)
   \<and> ''com.spotify.Client'' |\<in>| st_extra_flatpaks (status ''box'' example_manifest example_state)
   \<and> Plus ''com.spotify.Client'' \<in> set (st_stdout (status ''box'' example_manifest example_state))
   \<and> st_extra_flatpaks (status ''box'' (example_manifest\<lparr>m_excluded := None\<rparr>) example_state)
       = {|''com.spotify.Client'', ''org.mozilla.firefox''|}"
  using status_extra_flatpaks_ignore_excluded
    [of "''box''" example_manifest example_state None "''com.spotify.Client''"]
  by (auto simp: example_decls example_states)

section \<open>Properties of \<open>pull\<close>\<close>

lemma sorted_list_of_fset_Nil: "sorted_list_of_fset A = [] \<longleftrightarrow> A = {||}"
proof
  assume "sorted_list_of_fset A = []"
  then have "fset_of_list (sorted_list_of_fset A) = fset_of_list []" by simp
  then show "A = {||}" by simp
next
  assume "A = {||}"
  then show "sorted_list_of_fset A = []" by (simp add: sorted_list_of_fset.rep_eq)
qed

lemma decl_set_optional:
  "decl_system (set_optional m xs) = decl_system m"
  "decl_optional (set_optional m xs) = xs"
  "decl_groups (set_optional m xs) = decl_groups m"
  "decl_flatpaks (set_optional m xs) = decl_flatpaks m"
  "decl_excluded (set_optional m xs) = decl_excluded m"
  by (simp_all add: set_optional_def decl_system_def decl_optional_def decl_groups_def
      decl_flatpaks_def decl_excluded_def get_packages_def get_flatpak_def get_excluded_def
      get_list_def)

lemma decl_set_flatpak_packages:
  "decl_system (set_flatpak_packages m xs) = decl_system m"
  "decl_optional (set_flatpak_packages m xs) = decl_optional m"
  "decl_groups (set_flatpak_packages m xs) = decl_groups m"
  "decl_flatpaks (set_flatpak_packages m xs) = xs"
  "decl_excluded (set_flatpak_packages m xs) = decl_excluded m"
  by (simp_all add: set_flatpak_packages_def decl_system_def decl_optional_def decl_groups_def
      decl_flatpaks_def decl_excluded_def get_packages_def get_flatpak_def get_excluded_def
      get_list_def)

lemma decl_save_manifest:
  assumes "save_manifest h m now = Inr (m', out)"
  shows "decl_system m' = decl_system m" "decl_optional m' = decl_optional m"
    "decl_groups m' = decl_groups m" "decl_flatpaks m' = decl_flatpaks m"
    "decl_excluded m' = decl_excluded m"
    "m_packages m' = m_packages m" "m_flatpak m' = m_flatpak m"
  using assms
  by (auto simp: save_manifest_def decl_system_def decl_optional_def decl_groups_def
      decl_flatpaks_def decl_excluded_def get_packages_def get_flatpak_def get_excluded_def
      split: option.splits)

lemma pull_sets:
  "pl_new_packages (pull h M S now) =
     packages S |-| (fset_of_list (decl_system M) |\<union>| fset_of_list (decl_optional M))
       |-| fset_of_list (decl_excluded M)"
  "pl_new_flatpaks (pull h M S now) = flatpaks S |-| fset_of_list (decl_flatpaks M)"
  by (simp_all add: pull_def Let_def decl_set_optional split: sum.splits prod.splits)

text \<open>The document written by \<open>pull\<close>, through the five reads of the program.\<close>

lemma pull_result_save:
  "pl_result (pull h M S now) =
     map_sum id fst (save_manifest h
       (let new = packages S |-| (fset_of_list (decl_system M) |\<union>| fset_of_list (decl_optional M))
                    |-| fset_of_list (decl_excluded M);
            M1 = (if new \<noteq> {||}
                  then set_optional M (sorted_list_of_fset (fset_of_list (decl_optional M) |\<union>| new))
                  else M);
            nf = flatpaks S |-| fset_of_list (decl_flatpaks M)
        in if nf \<noteq> {||}
           then set_flatpak_packages M1
                  (sorted_list_of_fset (fset_of_list (decl_flatpaks M) |\<union>| nf))
           else M1) now)"
proof -
  have eq: "decl_flatpaks (if c then set_optional M xs else M) = decl_flatpaks M" for c xs
    by (simp add: decl_set_optional)
  show ?thesis
    unfolding pull_def Let_def eq
    by (simp split: sum.splits prod.splits)
qed

lemma pull_written:
  assumes "pl_result (pull h M S now) = Inr M'"
  shows "decl_system M' = decl_system M"
    and "decl_optional M' =
           (if pl_new_packages (pull h M S now) \<noteq> {||}
            then sorted_list_of_fset
                   (fset_of_list (decl_optional M) |\<union>| pl_new_packages (pull h M S now))
            else decl_optional M)"
    and "decl_flatpaks M' =
           (if pl_new_flatpaks (pull h M S now) \<noteq> {||}
            then sorted_list_of_fset
                   (fset_of_list (decl_flatpaks M) |\<union>| pl_new_flatpaks (pull h M S now))
            else decl_flatpaks M)"
    and "decl_groups M' = decl_groups M"
    and "decl_excluded M' = decl_excluded M"
    and "pl_new_packages (pull h M S now) = {||} \<Longrightarrow> m_packages M' = m_packages M"
    and "pl_new_flatpaks (pull h M S now) = {||} \<Longrightarrow> m_flatpak M' = m_flatpak M"
proof -
  let ?new = "packages S |-| (fset_of_list (decl_system M) |\<union>| fset_of_list (decl_optional M))
                |-| fset_of_list (decl_excluded M)"
  let ?nf = "flatpaks S |-| fset_of_list (decl_flatpaks M)"
  let ?M1 = "if ?new \<noteq> {||}
             then set_optional M (sorted_list_of_fset (fset_of_list (decl_optional M) |\<union>| ?new))
             else M"
  let ?M2 = "if ?nf \<noteq> {||}
             then set_flatpak_packages ?M1
                    (sorted_list_of_fset (fset_of_list (decl_flatpaks M) |\<union>| ?nf))
             else ?M1"
  have "map_sum id fst (save_manifest h ?M2 now) = Inr M'"
    using assms pull_result_save [of h M S now] by (simp only: Let_def)
  then obtain out where sv: "save_manifest h ?M2 now = Inr (M', out)"
    by (cases "save_manifest h ?M2 now") auto
  have M2: "pl_new_packages (pull h M S now) = ?new" "pl_new_flatpaks (pull h M S now) = ?nf"
    by (rule pull_sets)+
  note d = decl_save_manifest [OF sv]
  show "decl_system M' = decl_system M"
    by (simp add: d M2 decl_set_optional decl_set_flatpak_packages)
  show "decl_optional M' =
           (if pl_new_packages (pull h M S now) \<noteq> {||}
            then sorted_list_of_fset
                   (fset_of_list (decl_optional M) |\<union>| pl_new_packages (pull h M S now))
            else decl_optional M)"
    by (simp add: d M2 decl_set_optional decl_set_flatpak_packages)
  show "decl_flatpaks M' =
           (if pl_new_flatpaks (pull h M S now) \<noteq> {||}
            then sorted_list_of_fset
                   (fset_of_list (decl_flatpaks M) |\<union>| pl_new_flatpaks (pull h M S now))
            else decl_flatpaks M)"
    by (simp add: d M2 decl_set_optional decl_set_flatpak_packages)
  show "decl_groups M' = decl_groups M"
    by (simp add: d M2 decl_set_optional decl_set_flatpak_packages)
  show "decl_excluded M' = decl_excluded M"
    by (simp add: d M2 decl_set_optional decl_set_flatpak_packages)
  show "m_packages M' = m_packages M" if "pl_new_packages (pull h M S now) = {||}"
    using that by (simp add: d M2 set_flatpak_packages_def)
  show "m_flatpak M' = m_flatpak M" if "pl_new_flatpaks (pull h M S now) = {||}"
    using that by (simp add: d M2 set_optional_def)
qed

text \<open>
  The template that \<open>load_manifest\<close> supplies for a host without a file declares nothing and
  has a \<open>meta\<close> table, so \<open>pull\<close> on it always writes a document.
\<close>

lemma template_decls:
  assumes "store h = None"
  shows "decl_system (load_manifest store h t) = []"
    and "decl_optional (load_manifest store h t) = []"
    and "decl_flatpaks (load_manifest store h t) = []"
    and "decl_excluded (load_manifest store h t) = []"
  using assms
  by (simp_all add: load_manifest_def decl_system_def decl_optional_def decl_flatpaks_def
      decl_excluded_def get_packages_def get_flatpak_def get_excluded_def get_list_def)

lemma save_manifest_meta:
  "m_meta m \<noteq> None \<Longrightarrow> \<exists>m'. map_sum id fst (save_manifest h m now) = Inr m'"
  by (auto simp: save_manifest_def split: option.splits)

lemma template_pull_writes:
  assumes "store h = None"
  shows "\<exists>M'. pl_result (pull h (load_manifest store h t) S now) = Inr M'"
  unfolding pull_result_save
  by (rule save_manifest_meta)
     (simp add: assms load_manifest_def Let_def set_optional_def set_flatpak_packages_def)

lemma example_pull_result:
  "pl_result (pull ''box'' example_manifest example_state ''t1'') =
     Inr (example_manifest
           \<lparr>m_meta := Some \<lparr>hostname = Some ''box'', updated = Some ''t1'', managed_by = Some ''dnf''\<rparr>,
            m_packages := Some \<lparr>system = Some [''vim'', ''git''], optional = Some [''curl'', ''tmux''],
                                 packages_groups = Some [''development-tools'']\<rparr>,
            m_flatpak := Some \<lparr>flatpak_packages =
              Some [''com.spotify.Client'', ''org.gimp.GIMP'', ''org.mozilla.firefox'']\<rparr>\<rparr>)"
  by code_simp

lemma example_pull_projr:
  "pl_result (pull ''box'' example_manifest example_state ''t1'') =
     Inr (projr (pl_result (pull ''box'' example_manifest example_state ''t1'')))"
  by (simp add: example_pull_result)

text \<open>
  C2. \<open>pull\<close> computes \<open>new = observed - (system \<union> optional) - excluded\<close>; when \<open>new\<close> is
  non-empty the written \<open>packages.optional\<close> is the sorted list of \<open>optional \<union> new\<close>, when
  it is empty the \<open>packages\<close> table is written as it was; \<open>packages.system\<close> is written
  unchanged in both cases.
\<close>

theorem pull_merges_into_optional:
  assumes "pl_result (pull h M S now) = Inr M'"
  shows "pl_new_packages (pull h M S now) =
           packages S |-| (fset_of_list (decl_system M) |\<union>| fset_of_list (decl_optional M))
             |-| fset_of_list (decl_excluded M)
         \<and> (pl_new_packages (pull h M S now) \<noteq> {||} \<longrightarrow>
              decl_optional M' =
                sorted_list_of_fset
                  (fset_of_list (decl_optional M) |\<union>| pl_new_packages (pull h M S now)))
         \<and> (pl_new_packages (pull h M S now) = {||} \<longrightarrow> m_packages M' = m_packages M)
         \<and> fset_of_list (decl_optional M') =
             fset_of_list (decl_optional M) |\<union>| pl_new_packages (pull h M S now)
         \<and> decl_system M' = decl_system M"
  using pull_written [OF assms] by (auto simp: pull_sets)

theorem pull_merges_into_optional_witness:
  "pl_new_packages (pull ''box'' example_manifest example_state ''t1'') = {|''tmux''|}
   \<and> decl_optional (projr (pl_result (pull ''box'' example_manifest example_state ''t1'')))
       = [''curl'', ''tmux'']
   \<and> decl_system (projr (pl_result (pull ''box'' example_manifest example_state ''t1'')))
       = [''vim'', ''git'']"
proof -
  have new: "packages example_state
               |-| (fset_of_list (decl_system example_manifest)
                      |\<union>| fset_of_list (decl_optional example_manifest))
               |-| fset_of_list (decl_excluded example_manifest) = {|''tmux''|}"
    by (auto simp: example_decls example_states)
  have srt: "sorted_list_of_fset (fset_of_list [''curl''] |\<union>| {|''tmux''|}) = [''curl'', ''tmux'']"
    by (simp add: sorted_list_of_fset.rep_eq fset_of_list.rep_eq)
  note t = pull_merges_into_optional [OF example_pull_projr]
  from t have 1: "pl_new_packages (pull ''box'' example_manifest example_state ''t1'') = {|''tmux''|}"
    unfolding new by (rule conjunct1)
  from t have 2: "decl_optional (projr (pl_result (pull ''box'' example_manifest example_state ''t1'')))
       = [''curl'', ''tmux'']"
    unfolding 1 example_decls srt by simp
  from t have 3: "decl_system (projr (pl_result (pull ''box'' example_manifest example_state ''t1'')))
       = [''vim'', ''git'']"
    unfolding example_decls by simp
  show ?thesis using 1 2 3 by simp
qed

text \<open>
  C9. In the document produced by \<open>pull\<close>, \<open>packages.system\<close>, \<open>packages.optional\<close> and
  \<open>flatpak.packages\<close> each contain every element they had before: \<open>pull\<close> removes nothing.
\<close>

theorem pull_never_removes:
  assumes "pl_result (pull h M S now) = Inr M'"
  shows "set (decl_system M) \<subseteq> set (decl_system M')
         \<and> set (decl_optional M) \<subseteq> set (decl_optional M')
         \<and> set (decl_flatpaks M) \<subseteq> set (decl_flatpaks M')"
proof -
  have "set (decl_optional M) \<subseteq> set (decl_optional M')"
    by (simp add: pull_written(2) [OF assms] fset_of_list.rep_eq)
  moreover have "set (decl_flatpaks M) \<subseteq> set (decl_flatpaks M')"
    by (simp add: pull_written(3) [OF assms] fset_of_list.rep_eq)
  ultimately show ?thesis
    by (simp add: pull_written(1) [OF assms])
qed

theorem pull_never_removes_witness:
  "set [''vim'', ''git''] \<subseteq> set (decl_system (projr (pl_result (pull ''box'' example_manifest example_state ''t1''))))
   \<and> set [''curl''] \<subseteq> set (decl_optional (projr (pl_result (pull ''box'' example_manifest example_state ''t1''))))
   \<and> set [''org.gimp.GIMP'']
        \<subseteq> set (decl_flatpaks (projr (pl_result (pull ''box'' example_manifest example_state ''t1''))))"
  using pull_never_removes [OF example_pull_projr]
  unfolding example_decls by simp

text \<open>
  C3, as stated, fails: \<open>pull\<close> does not subtract the excluded identifiers from the observed
  flatpaks. On the example, the excluded identifier \<open>com.spotify.Client\<close> is installed as a
  flatpak and \<open>pull\<close> adds it to \<open>flatpak.packages\<close>.
\<close>

theorem pull_flatpaks_excluded_counterexample:
  "pl_new_flatpaks (pull ''box'' example_manifest example_state ''t1'')
     = {|''com.spotify.Client'', ''org.mozilla.firefox''|}
   \<and> flatpaks example_state |-| fset_of_list (decl_flatpaks example_manifest)
         |-| fset_of_list (decl_excluded example_manifest) = {|''org.mozilla.firefox''|}
   \<and> pl_new_flatpaks (pull ''box'' example_manifest example_state ''t1'')
       \<noteq> flatpaks example_state |-| fset_of_list (decl_flatpaks example_manifest)
           |-| fset_of_list (decl_excluded example_manifest)
   \<and> decl_flatpaks (projr (pl_result (pull ''box'' example_manifest example_state ''t1'')))
       = [''com.spotify.Client'', ''org.gimp.GIMP'', ''org.mozilla.firefox'']"
proof -
  have a: "pl_new_flatpaks (pull ''box'' example_manifest example_state ''t1'')
             = {|''com.spotify.Client'', ''org.mozilla.firefox''|}"
    by (auto simp: pull_sets example_decls example_states)
  have b: "flatpaks example_state |-| fset_of_list (decl_flatpaks example_manifest)
             |-| fset_of_list (decl_excluded example_manifest) = {|''org.mozilla.firefox''|}"
    by (auto simp: example_decls example_states)
  have c: "{|''com.spotify.Client'', ''org.mozilla.firefox''|} \<noteq> {|''org.mozilla.firefox''|}"
    by auto
  show ?thesis
    unfolding a b using c
    by (simp add: example_pull_result decl_flatpaks_def get_flatpak_def get_list_def)
qed

text \<open>
  C3, amended. The identifiers \<open>pull\<close> adds to \<open>flatpak.packages\<close> are
  \<open>observed flatpaks - flatpak.packages\<close>, whatever the excluded list holds; when this set is
  non-empty the written list is the sorted union, otherwise the \<open>flatpak\<close> table is written as
  it was. There is no optional category for flatpaks: the written enforced set is the old one
  together with every observed flatpak.
\<close>

theorem pull_merges_flatpaks:
  assumes "pl_result (pull h M S now) = Inr M'"
  shows "pl_new_flatpaks (pull h M S now) = flatpaks S |-| fset_of_list (decl_flatpaks M)
         \<and> pl_new_flatpaks (pull h (M\<lparr>m_excluded := e\<rparr>) S now) = pl_new_flatpaks (pull h M S now)
         \<and> (pl_new_flatpaks (pull h M S now) \<noteq> {||} \<longrightarrow>
              decl_flatpaks M' =
                sorted_list_of_fset
                  (fset_of_list (decl_flatpaks M) |\<union>| pl_new_flatpaks (pull h M S now)))
         \<and> (pl_new_flatpaks (pull h M S now) = {||} \<longrightarrow> m_flatpak M' = m_flatpak M)
         \<and> fset_of_list (decl_flatpaks M') = fset_of_list (decl_flatpaks M) |\<union>| flatpaks S"
  using pull_written [OF assms]
  by (auto simp: pull_sets decl_flatpaks_excluded_update)

theorem pull_merges_flatpaks_witness:
  "pl_new_flatpaks (pull ''box'' example_manifest example_state ''t1'')
     = {|''com.spotify.Client'', ''org.mozilla.firefox''|}
   \<and> fset_of_list (decl_flatpaks (projr (pl_result (pull ''box'' example_manifest example_state ''t1''))))
       = {|''org.gimp.GIMP'', ''com.spotify.Client'', ''org.mozilla.firefox''|}"
proof -
  have a: "flatpaks example_state |-| fset_of_list (decl_flatpaks example_manifest)
             = {|''com.spotify.Client'', ''org.mozilla.firefox''|}"
    by (auto simp: example_decls example_states)
  have b: "fset_of_list (decl_flatpaks example_manifest) |\<union>| flatpaks example_state
             = {|''org.gimp.GIMP'', ''com.spotify.Client'', ''org.mozilla.firefox''|}"
    by (auto simp: example_decls example_states)
  note t = pull_merges_flatpaks [OF example_pull_projr, of None]
  from t have 1: "pl_new_flatpaks (pull ''box'' example_manifest example_state ''t1'')
     = {|''com.spotify.Client'', ''org.mozilla.firefox''|}"
    unfolding a by (rule conjunct1)
  from t have 2: "fset_of_list (decl_flatpaks (projr (pl_result (pull ''box'' example_manifest example_state ''t1''))))
       = {|''org.gimp.GIMP'', ''com.spotify.Client'', ''org.mozilla.firefox''|}"
    unfolding b by blast
  show ?thesis using 1 2 by (rule conjI)
qed

section \<open>Properties of \<open>apply\<close> and \<open>diff\<close>\<close>

lemma sorted_fminus_Nil: "A |\<subseteq>| B \<Longrightarrow> sorted_list_of_fset (A |-| B) = []"
  by (simp add: sorted_list_of_fset_Nil)

lemma run_checked:
  "subprocess_run env cmd False True =
     (if call_ok env cmd then Inr (0, []) else Inl (call_error env cmd))"
  by (simp add: subprocess_run_def call_ok_def call_error_def split: list.splits proc.splits)

lemma install_flatpaks_ok:
  "snd (install_flatpaks env fs) = None \<Longrightarrow>
   fst (install_flatpaks env fs) = map (\<lambda>f. [''flatpak'', ''install'', ''-y'', f]) fs"
  by (induction fs) (auto simp: run_checked Let_def split: prod.splits if_splits)

lemma install_flatpaks_prefix:
  "take (length (fst (install_flatpaks env fs))) (map (\<lambda>f. [''flatpak'', ''install'', ''-y'', f]) fs)
     = fst (install_flatpaks env fs)"
  by (induction fs) (auto simp: run_checked Let_def split: prod.splits if_splits)

text \<open>
  The loop stops at the first call that fails: the calls made are the calls that succeed
  before it and the failing call itself, and its exception is the one raised.
\<close>

lemma install_flatpaks_fail_fast:
  "install_flatpaks env fs =
     (takeWhile (call_ok env) (map (\<lambda>f. [''flatpak'', ''install'', ''-y'', f]) fs)
        @ take 1 (dropWhile (call_ok env) (map (\<lambda>f. [''flatpak'', ''install'', ''-y'', f]) fs)),
      case dropWhile (call_ok env) (map (\<lambda>f. [''flatpak'', ''install'', ''-y'', f]) fs) of
        [] \<Rightarrow> None
      | c # rest \<Rightarrow> Some (call_error env c))"
  by (induction fs) (simp_all add: run_checked Let_def)

lemma apply_sets:
  "ap_missing (apply_cmd M S d env) = fset_of_list (decl_system M) |-| packages S"
  "ap_missing_flatpaks (apply_cmd M S d env) = fset_of_list (decl_flatpaks M) |-| flatpaks S"
  by (simp_all add: apply_cmd_def Let_def split: prod.splits option.splits)

lemma apply_dry:
  "ap_calls (apply_cmd M S True env) = []" "ap_raised (apply_cmd M S True env) = None"
  by (simp_all add: apply_cmd_def Let_def split: prod.splits option.splits)

lemma apply_nothing:
  assumes "fset_of_list (decl_system M) |-| packages S = {||}"
    and "fset_of_list (decl_flatpaks M) |-| flatpaks S = {||}"
  shows "apply_cmd M S d env =
           \<lparr>ap_missing = {||}, ap_missing_flatpaks = {||}, ap_stdout = [Nothing_to_install],
            ap_calls = [], ap_raised = None\<rparr>"
  using assms by (simp add: apply_cmd_def Let_def)

lemma apply_calls_ok:
  assumes "ap_raised (apply_cmd M S False env) = None"
  shows "ap_calls (apply_cmd M S False env) =
     planned_calls (fset_of_list (decl_system M) |-| packages S)
       (fset_of_list (decl_flatpaks M) |-| flatpaks S)"
  using assms install_flatpaks_ok [of env "sorted_list_of_fset (fset_of_list (decl_flatpaks M) |-| flatpaks S)"]
  by (auto simp add: apply_cmd_def planned_calls_def Let_def sorted_fminus_Nil
      split: prod.splits option.splits sum.splits if_splits)

lemma apply_calls_prefix:
  "take (length (ap_calls (apply_cmd M S False env)))
     (planned_calls (fset_of_list (decl_system M) |-| packages S)
        (fset_of_list (decl_flatpaks M) |-| flatpaks S))
   = ap_calls (apply_cmd M S False env)"
  using install_flatpaks_prefix [of env "sorted_list_of_fset (fset_of_list (decl_flatpaks M) |-| flatpaks S)"]
  by (auto simp add: apply_cmd_def planned_calls_def Let_def sorted_fminus_Nil
      split: prod.splits option.splits sum.splits if_splits)

lemma apply_stdout_dry:
  "ap_stdout (apply_cmd M S True env) =
     (let missing = fset_of_list (decl_system M) |-| packages S;
          missing_flatpaks = fset_of_list (decl_flatpaks M) |-| flatpaks S
      in if missing = {||} \<and> missing_flatpaks = {||} then [Nothing_to_install]
         else (if missing \<noteq> {||}
               then Installing_dnf (fcard missing) # map Plain (sorted_list_of_fset missing)
               else [])
              @ (if missing_flatpaks \<noteq> {||}
                 then Installing_flatpaks (fcard missing_flatpaks)
                      # map Plain (sorted_list_of_fset missing_flatpaks)
                 else [])
              @ [Dry_run_note])"
  by (simp add: apply_cmd_def Let_def split: prod.splits option.splits)

lemma apply_stdout_ok:
  assumes "ap_raised (apply_cmd M S False env) = None"
  shows "ap_stdout (apply_cmd M S True env') =
           ap_stdout (apply_cmd M S False env)
           @ (if fset_of_list (decl_system M) |-| packages S = {||}
                 \<and> fset_of_list (decl_flatpaks M) |-| flatpaks S = {||}
              then [] else [Dry_run_note])"
  using assms
  by (auto simp add: apply_cmd_def Let_def
      split: prod.splits option.splits sum.splits if_splits)

lemma apply_fail_fast:
  "ap_calls (apply_cmd M S False env) =
     takeWhile (call_ok env)
       (planned_calls (fset_of_list (decl_system M) |-| packages S)
          (fset_of_list (decl_flatpaks M) |-| flatpaks S))
     @ take 1 (dropWhile (call_ok env)
         (planned_calls (fset_of_list (decl_system M) |-| packages S)
            (fset_of_list (decl_flatpaks M) |-| flatpaks S)))"
  "ap_raised (apply_cmd M S False env) =
     (case dropWhile (call_ok env)
             (planned_calls (fset_of_list (decl_system M) |-| packages S)
                (fset_of_list (decl_flatpaks M) |-| flatpaks S)) of
        [] \<Rightarrow> None
      | c # rest \<Rightarrow> Some (call_error env c))"
proof -
  let ?ms = "fset_of_list (decl_system M) |-| packages S"
  let ?mf = "fset_of_list (decl_flatpaks M) |-| flatpaks S"
  let ?fc = "map (\<lambda>f. [''flatpak'', ''install'', ''-y'', f]) (sorted_list_of_fset ?mf)"
  let ?dnf = "[''sudo'', ''dnf'', ''install'', ''-y''] @ sorted_list_of_fset ?ms"
  have mf_empty: "?fc = []" if "?mf = {||}"
    using that by (simp add: sorted_list_of_fset_Nil)
  have run: "apply_cmd M S False env =
      (if ?ms = {||} \<and> ?mf = {||}
       then \<lparr>ap_missing = ?ms, ap_missing_flatpaks = ?mf, ap_stdout = [Nothing_to_install],
             ap_calls = [], ap_raised = None\<rparr>
       else if ?ms \<noteq> {||} \<and> \<not> call_ok env ?dnf
       then \<lparr>ap_missing = ?ms, ap_missing_flatpaks = ?mf,
             ap_stdout = Installing_dnf (fcard ?ms) # map Plain (sorted_list_of_fset ?ms),
             ap_calls = [?dnf], ap_raised = Some (call_error env ?dnf)\<rparr>
       else \<lparr>ap_missing = ?ms, ap_missing_flatpaks = ?mf,
             ap_stdout = (if ?ms \<noteq> {||}
                          then Installing_dnf (fcard ?ms) # map Plain (sorted_list_of_fset ?ms)
                          else [])
                         @ (if ?mf \<noteq> {||}
                            then Installing_flatpaks (fcard ?mf) # map Plain (sorted_list_of_fset ?mf)
                            else []),
             ap_calls = (if ?ms \<noteq> {||} then [?dnf] else [])
                        @ fst (install_flatpaks env (sorted_list_of_fset ?mf)),
             ap_raised = snd (install_flatpaks env (sorted_list_of_fset ?mf))\<rparr>)"
    by (simp add: apply_cmd_def Let_def run_checked sorted_list_of_fset_Nil sorted_fminus_Nil
        split: prod.splits option.splits)
  show "ap_calls (apply_cmd M S False env) =
          takeWhile (call_ok env) (planned_calls ?ms ?mf)
          @ take 1 (dropWhile (call_ok env) (planned_calls ?ms ?mf))"
    unfolding run by (simp add: planned_calls_def install_flatpaks_fail_fast mf_empty)
  show "ap_raised (apply_cmd M S False env) =
          (case dropWhile (call_ok env) (planned_calls ?ms ?mf) of
             [] \<Rightarrow> None
           | c # rest \<Rightarrow> Some (call_error env c))"
    unfolding run by (simp add: planned_calls_def install_flatpaks_fail_fast mf_empty)
qed

lemma apply_ignores_optional_groups:
  "apply_cmd (M\<lparr>m_packages := Some ((get_packages M)\<lparr>optional := opt, packages_groups := grp\<rparr>)\<rparr>)
     S d env = apply_cmd M S d env"
proof -
  let ?M = "M\<lparr>m_packages := Some ((get_packages M)\<lparr>optional := opt, packages_groups := grp\<rparr>)\<rparr>"
  have "decl_system ?M = decl_system M" "decl_flatpaks ?M = decl_flatpaks M"
    by (simp_all add: decl_system_def decl_flatpaks_def get_packages_def get_flatpak_def)
  then show ?thesis
    by (simp add: apply_cmd_def Let_def)
qed

lemma example_apply_sets:
  "fset_of_list (decl_system example_manifest) |-| packages example_state = {|''vim''|}"
  "fset_of_list (decl_flatpaks example_manifest) |-| flatpaks example_state = {|''org.gimp.GIMP''|}"
  by (auto simp: example_decls example_states)

lemma example_plan:
  "planned_calls {|''vim''|} {|''org.gimp.GIMP''|} =
     [[''sudo'', ''dnf'', ''install'', ''-y'', ''vim''],
      [''flatpak'', ''install'', ''-y'', ''org.gimp.GIMP'']]"
  by (simp add: planned_calls_def sorted_list_of_fset.rep_eq)

lemma example_apply_run:
  "apply_cmd example_manifest example_state False all_succeed =
     \<lparr>ap_missing = {|''vim''|}, ap_missing_flatpaks = {|''org.gimp.GIMP''|},
      ap_stdout = [Installing_dnf 1, Plain ''vim'', Installing_flatpaks 1, Plain ''org.gimp.GIMP''],
      ap_calls = [[''sudo'', ''dnf'', ''install'', ''-y'', ''vim''],
                  [''flatpak'', ''install'', ''-y'', ''org.gimp.GIMP'']],
      ap_raised = None\<rparr>"
  by code_simp

text \<open>
  C4, as stated, fails in two ways. When the primary missing set is empty there is no batched
  call at all: for \<open>flatpak_only_manifest\<close> the only call is the one flatpak call. And the first
  failing call ends the run: when the batched call fails, the missing flatpak is never passed
  to an installer.
\<close>

theorem apply_one_batched_call_counterexample:
  "ap_missing (apply_cmd flatpak_only_manifest example_state False all_succeed) = {||}
   \<and> ap_calls (apply_cmd flatpak_only_manifest example_state False all_succeed)
       = [[''flatpak'', ''install'', ''-y'', ''org.gimp.GIMP'']]
   \<and> ap_missing_flatpaks (apply_cmd example_manifest example_state False dnf_install_fails)
       = {|''org.gimp.GIMP''|}
   \<and> ap_calls (apply_cmd example_manifest example_state False dnf_install_fails)
       = [[''sudo'', ''dnf'', ''install'', ''-y'', ''vim'']]
   \<and> ap_raised (apply_cmd example_manifest example_state False dnf_install_fails)
       = Some CalledProcessError"
  by code_simp

text \<open>
  C4, amended. \<open>apply\<close> computes \<open>missing = system - observed\<close> and
  \<open>missing_flatpaks = flatpak.packages - observed flatpaks\<close>; the optional and group
  declarations have no influence on the run. The planned calls are no call for an empty
  primary set and one batched call carrying the whole sorted set for a non-empty one, then
  one call per missing flatpak in sorted order. The first failing call ends the run: the calls
  made are the planned calls that succeed before the first failing one, and that one; the
  exception raised is the one of that call, and none when every planned call succeeds. So the
  calls made are always an initial part of the planned calls, and all of them when nothing
  is raised.
\<close>

theorem apply_installer_calls:
  "ap_missing (apply_cmd M S False env) = fset_of_list (decl_system M) |-| packages S
   \<and> ap_missing_flatpaks (apply_cmd M S False env) = fset_of_list (decl_flatpaks M) |-| flatpaks S
   \<and> apply_cmd (M\<lparr>m_packages := Some ((get_packages M)\<lparr>optional := opt, packages_groups := grp\<rparr>)\<rparr>)
        S False env = apply_cmd M S False env
   \<and> ap_calls (apply_cmd M S False env) =
        takeWhile (call_ok env)
          (planned_calls (ap_missing (apply_cmd M S False env))
             (ap_missing_flatpaks (apply_cmd M S False env)))
        @ take 1 (dropWhile (call_ok env)
            (planned_calls (ap_missing (apply_cmd M S False env))
               (ap_missing_flatpaks (apply_cmd M S False env))))
   \<and> ap_raised (apply_cmd M S False env) =
        (case dropWhile (call_ok env)
                (planned_calls (ap_missing (apply_cmd M S False env))
                   (ap_missing_flatpaks (apply_cmd M S False env))) of
           [] \<Rightarrow> None
         | c # rest \<Rightarrow> Some (call_error env c))
   \<and> take (length (ap_calls (apply_cmd M S False env)))
        (planned_calls (ap_missing (apply_cmd M S False env))
           (ap_missing_flatpaks (apply_cmd M S False env)))
      = ap_calls (apply_cmd M S False env)
   \<and> (ap_raised (apply_cmd M S False env) = None \<longrightarrow>
        ap_calls (apply_cmd M S False env)
          = planned_calls (ap_missing (apply_cmd M S False env))
              (ap_missing_flatpaks (apply_cmd M S False env)))"
  unfolding apply_sets
  by (intro conjI impI refl apply_ignores_optional_groups apply_fail_fast apply_calls_prefix
      apply_calls_ok)

lemma three_flatpaks_sets:
  "fset_of_list (decl_system three_flatpaks_manifest) |-| packages example_state = {|''vim''|}"
  "fset_of_list (decl_flatpaks three_flatpaks_manifest) |-| flatpaks example_state
     = {|''org.gimp.GIMP'', ''org.kde.krita'', ''org.videolan.VLC''|}"
  by (auto simp: three_flatpaks_manifest_def example_manifest_def example_states
      decl_system_def decl_flatpaks_def get_packages_def get_flatpak_def get_list_def)

lemma three_flatpaks_plan:
  "planned_calls {|''vim''|} {|''org.gimp.GIMP'', ''org.kde.krita'', ''org.videolan.VLC''|} =
     [[''sudo'', ''dnf'', ''install'', ''-y'', ''vim''],
      [''flatpak'', ''install'', ''-y'', ''org.gimp.GIMP''],
      [''flatpak'', ''install'', ''-y'', ''org.kde.krita''],
      [''flatpak'', ''install'', ''-y'', ''org.videolan.VLC'']]"
  by code_simp

lemma krita_calls:
  "takeWhile (call_ok krita_install_fails)
     [[''sudo'', ''dnf'', ''install'', ''-y'', ''vim''],
      [''flatpak'', ''install'', ''-y'', ''org.gimp.GIMP''],
      [''flatpak'', ''install'', ''-y'', ''org.kde.krita''],
      [''flatpak'', ''install'', ''-y'', ''org.videolan.VLC'']]
   @ take 1 (dropWhile (call_ok krita_install_fails)
     [[''sudo'', ''dnf'', ''install'', ''-y'', ''vim''],
      [''flatpak'', ''install'', ''-y'', ''org.gimp.GIMP''],
      [''flatpak'', ''install'', ''-y'', ''org.kde.krita''],
      [''flatpak'', ''install'', ''-y'', ''org.videolan.VLC'']])
   = [[''sudo'', ''dnf'', ''install'', ''-y'', ''vim''],
      [''flatpak'', ''install'', ''-y'', ''org.gimp.GIMP''],
      [''flatpak'', ''install'', ''-y'', ''org.kde.krita'']]"
  "(case dropWhile (call_ok krita_install_fails)
     [[''sudo'', ''dnf'', ''install'', ''-y'', ''vim''],
      [''flatpak'', ''install'', ''-y'', ''org.gimp.GIMP''],
      [''flatpak'', ''install'', ''-y'', ''org.kde.krita''],
      [''flatpak'', ''install'', ''-y'', ''org.videolan.VLC'']] of
      [] \<Rightarrow> None
    | c # rest \<Rightarrow> Some (call_error krita_install_fails c)) = Some CalledProcessError"
  by code_simp+

theorem apply_installer_calls_witness:
  "ap_raised (apply_cmd example_manifest example_state False all_succeed) = None
   \<and> ap_missing (apply_cmd example_manifest example_state False all_succeed) = {|''vim''|}
   \<and> ap_missing_flatpaks (apply_cmd example_manifest example_state False all_succeed)
       = {|''org.gimp.GIMP''|}
   \<and> ap_calls (apply_cmd example_manifest example_state False all_succeed)
       = [[''sudo'', ''dnf'', ''install'', ''-y'', ''vim''],
          [''flatpak'', ''install'', ''-y'', ''org.gimp.GIMP'']]
   \<and> ap_missing_flatpaks (apply_cmd three_flatpaks_manifest example_state False krita_install_fails)
       = {|''org.gimp.GIMP'', ''org.kde.krita'', ''org.videolan.VLC''|}
   \<and> ap_calls (apply_cmd three_flatpaks_manifest example_state False krita_install_fails)
       = [[''sudo'', ''dnf'', ''install'', ''-y'', ''vim''],
          [''flatpak'', ''install'', ''-y'', ''org.gimp.GIMP''],
          [''flatpak'', ''install'', ''-y'', ''org.kde.krita'']]
   \<and> ap_raised (apply_cmd three_flatpaks_manifest example_state False krita_install_fails)
       = Some CalledProcessError"
proof -
  have ok: "ap_raised (apply_cmd example_manifest example_state False all_succeed) = None"
    by (simp add: example_apply_run)
  note t = apply_installer_calls [of example_manifest example_state all_succeed None None]
  from t have 1: "ap_missing (apply_cmd example_manifest example_state False all_succeed) = {|''vim''|}"
    unfolding example_apply_sets by blast
  from t have 2: "ap_missing_flatpaks (apply_cmd example_manifest example_state False all_succeed)
       = {|''org.gimp.GIMP''|}"
    unfolding example_apply_sets by blast
  from t ok have "ap_calls (apply_cmd example_manifest example_state False all_succeed)
          = planned_calls (ap_missing (apply_cmd example_manifest example_state False all_succeed))
              (ap_missing_flatpaks (apply_cmd example_manifest example_state False all_succeed))"
    by blast
  then have 3: "ap_calls (apply_cmd example_manifest example_state False all_succeed)
       = [[''sudo'', ''dnf'', ''install'', ''-y'', ''vim''],
          [''flatpak'', ''install'', ''-y'', ''org.gimp.GIMP'']]"
    unfolding 1 2 example_plan .
  note u = apply_installer_calls [of three_flatpaks_manifest example_state krita_install_fails None None]
  from u have 4: "ap_missing (apply_cmd three_flatpaks_manifest example_state False krita_install_fails)
       = {|''vim''|}"
    unfolding three_flatpaks_sets by blast
  from u have 5: "ap_missing_flatpaks (apply_cmd three_flatpaks_manifest example_state False krita_install_fails)
       = {|''org.gimp.GIMP'', ''org.kde.krita'', ''org.videolan.VLC''|}"
    unfolding three_flatpaks_sets by blast
  from u have 6: "ap_calls (apply_cmd three_flatpaks_manifest example_state False krita_install_fails)
       = [[''sudo'', ''dnf'', ''install'', ''-y'', ''vim''],
          [''flatpak'', ''install'', ''-y'', ''org.gimp.GIMP''],
          [''flatpak'', ''install'', ''-y'', ''org.kde.krita'']]"
    unfolding 4 5 three_flatpaks_plan krita_calls by blast
  from u have 7: "ap_raised (apply_cmd three_flatpaks_manifest example_state False krita_install_fails)
       = Some CalledProcessError"
    unfolding 4 5 three_flatpaks_plan krita_calls by blast
  show ?thesis using ok 1 2 3 5 6 7 by blast
qed

text \<open>
  C5. \<open>diff\<close> makes no installer call and raises nothing; it computes the same \<open>missing\<close> and
  \<open>missing_flatpaks\<close> as \<open>apply\<close> on the same manifest and state, and prints them in sorted
  order. Whenever \<open>apply\<close> ends without a failing call, its installer calls are the planned
  calls for exactly these two sets, and \<open>diff\<close> prints what \<open>apply\<close> prints, followed by the
  dry-run note when there is something to install.
\<close>

theorem diff_matches_apply:
  "ap_calls (diff M S env) = []
   \<and> ap_raised (diff M S env) = None
   \<and> ap_missing (diff M S env) = ap_missing (apply_cmd M S False env')
   \<and> ap_missing_flatpaks (diff M S env) = ap_missing_flatpaks (apply_cmd M S False env')
   \<and> ap_stdout (diff M S env) =
       (let missing = ap_missing (diff M S env);
            missing_flatpaks = ap_missing_flatpaks (diff M S env)
        in if missing = {||} \<and> missing_flatpaks = {||} then [Nothing_to_install]
           else (if missing \<noteq> {||}
                 then Installing_dnf (fcard missing) # map Plain (sorted_list_of_fset missing)
                 else [])
                @ (if missing_flatpaks \<noteq> {||}
                   then Installing_flatpaks (fcard missing_flatpaks)
                        # map Plain (sorted_list_of_fset missing_flatpaks)
                   else [])
                @ [Dry_run_note])
   \<and> (ap_raised (apply_cmd M S False env') = None \<longrightarrow>
        ap_calls (apply_cmd M S False env')
          = planned_calls (ap_missing (diff M S env)) (ap_missing_flatpaks (diff M S env))
        \<and> ap_stdout (diff M S env) =
            ap_stdout (apply_cmd M S False env')
            @ (if ap_missing (diff M S env) = {||} \<and> ap_missing_flatpaks (diff M S env) = {||}
               then [] else [Dry_run_note]))"
proof -
  have "ap_stdout (apply_cmd M S True env) =
          ap_stdout (apply_cmd M S False env')
          @ (if fset_of_list (decl_system M) |-| packages S = {||}
                \<and> fset_of_list (decl_flatpaks M) |-| flatpaks S = {||}
             then [] else [Dry_run_note])"
    if "ap_raised (apply_cmd M S False env') = None"
    using that by (rule apply_stdout_ok)
  then show ?thesis
    unfolding diff_def
    by (simp add: apply_dry apply_sets apply_calls_ok apply_stdout_dry [unfolded Let_def] Let_def)
qed

theorem diff_matches_apply_witness:
  "ap_raised (apply_cmd example_manifest example_state False all_succeed) = None
   \<and> ap_calls (diff example_manifest example_state dnf_install_fails) = []
   \<and> ap_missing (diff example_manifest example_state dnf_install_fails) = {|''vim''|}
   \<and> ap_missing_flatpaks (diff example_manifest example_state dnf_install_fails) = {|''org.gimp.GIMP''|}
   \<and> ap_stdout (diff example_manifest example_state dnf_install_fails)
       = [Installing_dnf 1, Plain ''vim'', Installing_flatpaks 1, Plain ''org.gimp.GIMP'', Dry_run_note]
   \<and> ap_calls (apply_cmd example_manifest example_state False all_succeed)
       = [[''sudo'', ''dnf'', ''install'', ''-y'', ''vim''],
          [''flatpak'', ''install'', ''-y'', ''org.gimp.GIMP'']]"
proof -
  have ok: "ap_raised (apply_cmd example_manifest example_state False all_succeed) = None"
    by (simp add: example_apply_run)
  have m: "ap_missing (apply_cmd example_manifest example_state False all_succeed) = {|''vim''|}"
    "ap_missing_flatpaks (apply_cmd example_manifest example_state False all_succeed)
       = {|''org.gimp.GIMP''|}"
    by (simp_all add: example_apply_run)
  have out: "ap_stdout (apply_cmd example_manifest example_state False all_succeed)
       = [Installing_dnf 1, Plain ''vim'', Installing_flatpaks 1, Plain ''org.gimp.GIMP'']"
    by (simp add: example_apply_run)
  note t = diff_matches_apply [of example_manifest example_state dnf_install_fails all_succeed]
  from t have 1: "ap_calls (diff example_manifest example_state dnf_install_fails) = []"
    by blast
  from t have 2: "ap_missing (diff example_manifest example_state dnf_install_fails) = {|''vim''|}"
    "ap_missing_flatpaks (diff example_manifest example_state dnf_install_fails) = {|''org.gimp.GIMP''|}"
    unfolding m by blast+
  from t ok have "ap_calls (apply_cmd example_manifest example_state False all_succeed)
          = planned_calls (ap_missing (diff example_manifest example_state dnf_install_fails))
              (ap_missing_flatpaks (diff example_manifest example_state dnf_install_fails))
        \<and> ap_stdout (diff example_manifest example_state dnf_install_fails) =
            ap_stdout (apply_cmd example_manifest example_state False all_succeed)
            @ (if ap_missing (diff example_manifest example_state dnf_install_fails) = {||}
                  \<and> ap_missing_flatpaks (diff example_manifest example_state dnf_install_fails) = {||}
               then [] else [Dry_run_note])"
    by blast
  then have 3: "ap_calls (apply_cmd example_manifest example_state False all_succeed)
       = [[''sudo'', ''dnf'', ''install'', ''-y'', ''vim''],
          [''flatpak'', ''install'', ''-y'', ''org.gimp.GIMP'']]"
    and 4: "ap_stdout (diff example_manifest example_state dnf_install_fails)
       = [Installing_dnf 1, Plain ''vim'', Installing_flatpaks 1, Plain ''org.gimp.GIMP'', Dry_run_note]"
    unfolding 2 example_plan out by simp_all
  show ?thesis using ok 1 2 3 4 by blast
qed

text \<open>
  C8. If the state observed after an \<open>apply\<close> is the earlier state together with the sets
  that \<open>apply\<close> had to install, then a second \<open>apply\<close> (or \<open>diff\<close>) on the same manifest
  computes empty \<open>missing\<close> and \<open>missing_flatpaks\<close>, makes no installer call and prints that
  there is nothing to install.
\<close>

theorem apply_twice_installs_nothing:
  assumes "packages S' = packages S |\<union>| ap_missing (apply_cmd M S False env)"
    and "flatpaks S' = flatpaks S |\<union>| ap_missing_flatpaks (apply_cmd M S False env)"
  shows "ap_missing (apply_cmd M S' d env') = {||}
         \<and> ap_missing_flatpaks (apply_cmd M S' d env') = {||}
         \<and> ap_calls (apply_cmd M S' d env') = []
         \<and> ap_raised (apply_cmd M S' d env') = None
         \<and> ap_stdout (apply_cmd M S' d env') = [Nothing_to_install]"
proof -
  have "fset_of_list (decl_system M) |-| packages S' = {||}"
    "fset_of_list (decl_flatpaks M) |-| flatpaks S' = {||}"
    using assms by (auto simp: apply_sets)
  then show ?thesis
    by (simp add: apply_nothing)
qed

theorem apply_twice_installs_nothing_witness:
  "packages after_apply_state
     = packages example_state |\<union>| ap_missing (apply_cmd example_manifest example_state False all_succeed)
   \<and> flatpaks after_apply_state
     = flatpaks example_state
         |\<union>| ap_missing_flatpaks (apply_cmd example_manifest example_state False all_succeed)
   \<and> ap_missing (apply_cmd example_manifest after_apply_state False dnf_install_fails) = {||}
   \<and> ap_missing_flatpaks (apply_cmd example_manifest after_apply_state False dnf_install_fails) = {||}
   \<and> ap_calls (apply_cmd example_manifest after_apply_state False dnf_install_fails) = []"
proof -
  have a: "packages after_apply_state
     = packages example_state |\<union>| ap_missing (apply_cmd example_manifest example_state False all_succeed)"
    by (auto simp: example_apply_run example_states after_apply_state_def)
  have b: "flatpaks after_apply_state
     = flatpaks example_state
         |\<union>| ap_missing_flatpaks (apply_cmd example_manifest example_state False all_succeed)"
    by (auto simp: example_apply_run example_states after_apply_state_def)
  show ?thesis
    using a b apply_twice_installs_nothing [OF a b, of False dnf_install_fails]
    by blast
qed

section \<open>Properties of \<open>get_system_state\<close>\<close>

lemma query_tools:
  "tool_absent env dnf_query = (\<not> found env ''dnf'')"
  "tool_absent env groups_query = (\<not> found env ''dnf'')"
  "tool_absent env flatpak_query = (\<not> found env ''flatpak'')"
  by (simp_all add: tool_absent_def dnf_query_def groups_query_def flatpak_query_def)

lemma run_cmd_query:
  "run_cmd env cmd check =
     (if cmd = [] then Inl IndexError
      else if tool_absent env cmd then Inl FileNotFoundError
      else (case outcome env cmd of
              PermissionDenied \<Rightarrow> Inl PermissionError
            | Completed rc out \<Rightarrow>
                (case out of
                   None \<Rightarrow> Inl UnicodeDecodeError
                 | Some t \<Rightarrow> if check \<and> rc \<noteq> 0 then Inl CalledProcessError else Inr (rc, t))))"
  by (simp add: run_cmd_def subprocess_run_def tool_absent_def split: list.splits proc.splits)

lemma queries_nonempty: "dnf_query \<noteq> []" "groups_query \<noteq> []" "flatpak_query \<noteq> []"
  by (simp_all add: dnf_query_def groups_query_def flatpak_query_def)

lemma probe_packages_eq:
  assumes "tool_absent env dnf_query \<or> ran env dnf_query"
  shows "probe_packages env state =
           Inr (if failed env dnf_query then state
                else state\<lparr>packages := listing (stdout_of env dnf_query)\<rparr>,
                if failed env dnf_query then [Warning_dnf] else [])"
  using assms
  by (auto simp: probe_packages_def run_cmd_query queries_nonempty failed_def ran_def
      exit_nonzero_def stdout_of_def split: proc.splits option.splits)

lemma probe_groups_eq:
  assumes "tool_absent env groups_query \<or> ran env groups_query"
  shows "probe_groups env state =
           Inr (if tool_absent env groups_query then state
                else state\<lparr>groups :=
                       fold add_group (str_split (CHR 0x0A) (str_strip (stdout_of env groups_query)))
                         (groups state)\<rparr>)"
  using assms
  by (auto simp: probe_groups_def run_cmd_query queries_nonempty ran_def stdout_of_def
      split: proc.splits option.splits)

lemma probe_flatpaks_eq:
  assumes "tool_absent env flatpak_query \<or> ran env flatpak_query"
  shows "probe_flatpaks env state =
           Inr (if failed env flatpak_query then state
                else state\<lparr>flatpaks := listing (stdout_of env flatpak_query)\<rparr>)"
  using assms
  by (auto simp: probe_flatpaks_def run_cmd_query queries_nonempty failed_def ran_def
      exit_nonzero_def stdout_of_def split: proc.splits option.splits)

text \<open>
  The snapshot in closed form, when every query either does not find its tool or runs to its
  end with a decodable output: every set is determined by the answer to its own query, and
  the only diagnostic is the warning of the primary-package probe.
\<close>

lemma get_system_state_eq:
  assumes "tool_absent env dnf_query \<or> ran env dnf_query"
    and "tool_absent env groups_query \<or> ran env groups_query"
    and "tool_absent env flatpak_query \<or> ran env flatpak_query"
  shows "get_system_state env copr =
     Inr (\<lparr>packages =
             (if failed env dnf_query then {||} else listing (stdout_of env dnf_query)),
           groups =
             (if tool_absent env groups_query then {||}
              else fold add_group (str_split (CHR 0x0A) (str_strip (stdout_of env groups_query))) {||}),
           flatpaks =
             (if failed env flatpak_query then {||} else listing (stdout_of env flatpak_query)),
           copr_repos =
             (case copr of None \<Rightarrow> {||} | Some files \<Rightarrow> fold add_copr files {||})\<rparr>,
          if failed env dnf_query then [Warning_dnf] else [])"
  unfolding get_system_state_def probe_packages_eq [OF assms(1)]
  by (simp add: probe_groups_eq [OF assms(2)] probe_flatpaks_eq [OF assms(3)] probe_copr_def
      SystemState_default_def split: option.splits)

text \<open>An exception that no \<open>except\<close> clause names leaves \<open>get_system_state\<close>.\<close>

lemma get_system_state_aborts:
  assumes "found env ''dnf''" and "outcome env dnf_query = PermissionDenied"
  shows "get_system_state env copr = Inl PermissionError"
  using assms
  by (simp add: get_system_state_def probe_packages_def run_cmd_query queries_nonempty query_tools)

lemma without_env:
  "found (without prog env) p = (p \<noteq> prog \<and> found env p)"
  "outcome (without prog env) = outcome env"
  by (simp_all add: without_def)

lemma without_conditions:
  "tool_absent (without ''dnf'' env) dnf_query"
  "tool_absent (without ''dnf'' env) groups_query"
  "tool_absent (without ''dnf'' env) flatpak_query = tool_absent env flatpak_query"
  "tool_absent (without ''flatpak'' env) dnf_query = tool_absent env dnf_query"
  "tool_absent (without ''flatpak'' env) groups_query = tool_absent env groups_query"
  "tool_absent (without ''flatpak'' env) flatpak_query"
  "ran (without prog env) cmd = ran env cmd"
  "exit_nonzero (without prog env) cmd = exit_nonzero env cmd"
  "stdout_of (without prog env) cmd = stdout_of env cmd"
  by (simp_all add: query_tools without_env ran_def exit_nonzero_def stdout_of_def)

text \<open>
  C7, as stated, fails in three ways. With the flatpak tool absent and no repository
  directory, the snapshot has empty flatpak and repository sets but no diagnostic is emitted.
  When the group query ends with a non-zero return code, its output is parsed all the same
  and the group set is not empty. And when the flatpak program is found but cannot be started,
  the exception is not caught and no snapshot is returned.
\<close>

theorem probe_diagnostic_counterexample:
  "tool_absent no_flatpak_tool flatpak_query
   \<and> get_system_state no_flatpak_tool None =
       Inr (\<lparr>packages = {|''git'', ''vim''|}, groups = {|''development-tools''|},
             flatpaks = {||}, copr_repos = {||}\<rparr>, [])
   \<and> exit_nonzero groups_query_fails groups_query
   \<and> get_system_state groups_query_fails None =
       Inr (\<lparr>packages = {||}, groups = {|''workstation''|},
             flatpaks = {||}, copr_repos = {||}\<rparr>, [])
   \<and> get_system_state flatpak_not_executable None = Inl PermissionError"
  by code_simp

text \<open>
  C7, amended. When every query either does not find its tool or runs to its end with a
  decodable output, whatever its return code, \<open>get_system_state\<close> returns a snapshot. In it the
  set of an ecosystem is empty when its tool is absent (packages, groups, flatpaks), when its
  query ends with a non-zero return code (packages, flatpaks) or when the repository directory
  does not exist; a diagnostic is emitted exactly when the primary-package probe fails, and
  never for the other three. Removing the flatpak tool empties the flatpak set only; removing
  \<open>dnf\<close>, through which packages and groups are both queried, empties these two sets only;
  the other sets of the snapshot stay as they are.
\<close>

theorem snapshot_degrades:
  assumes "tool_absent env dnf_query \<or> ran env dnf_query"
    and "tool_absent env groups_query \<or> ran env groups_query"
    and "tool_absent env flatpak_query \<or> ran env flatpak_query"
  shows "\<exists>S d. get_system_state env copr = Inr (S, d)
     \<and> d = (if failed env dnf_query then [Warning_dnf] else [])
     \<and> (failed env dnf_query \<longrightarrow> packages S = {||})
     \<and> (tool_absent env groups_query \<longrightarrow> groups S = {||})
     \<and> (failed env flatpak_query \<longrightarrow> flatpaks S = {||})
     \<and> (copr = None \<longrightarrow> copr_repos S = {||})
     \<and> get_system_state (without ''dnf'' env) copr
         = Inr (S\<lparr>packages := {||}, groups := {||}\<rparr>, [Warning_dnf])
     \<and> get_system_state (without ''flatpak'' env) copr = Inr (S\<lparr>flatpaks := {||}\<rparr>, d)
     \<and> get_system_state env None = Inr (S\<lparr>copr_repos := {||}\<rparr>, d)"
proof -
  have no_dnf: "get_system_state (without ''dnf'' env) copr =
      Inr (\<lparr>packages = {||}, groups = {||},
            flatpaks = (if failed env flatpak_query then {||}
                        else listing (stdout_of env flatpak_query)),
            copr_repos = (case copr of None \<Rightarrow> {||} | Some files \<Rightarrow> fold add_copr files {||})\<rparr>,
           [Warning_dnf])"
    using assms(3)
    by (subst get_system_state_eq) (simp_all add: without_conditions failed_def)
  have no_flatpak: "get_system_state (without ''flatpak'' env) copr =
      Inr (\<lparr>packages = (if failed env dnf_query then {||} else listing (stdout_of env dnf_query)),
            groups =
              (if tool_absent env groups_query then {||}
               else fold add_group (str_split (CHR 0x0A) (str_strip (stdout_of env groups_query))) {||}),
            flatpaks = {||},
            copr_repos = (case copr of None \<Rightarrow> {||} | Some files \<Rightarrow> fold add_copr files {||})\<rparr>,
           if failed env dnf_query then [Warning_dnf] else [])"
    using assms(1,2)
    by (subst get_system_state_eq) (simp_all add: without_conditions failed_def)
  show ?thesis
    unfolding no_dnf no_flatpak get_system_state_eq [OF assms]
    by simp
qed

theorem snapshot_degrades_witness:
  "ran no_flatpak_tool dnf_query
   \<and> ran no_flatpak_tool groups_query
   \<and> tool_absent no_flatpak_tool flatpak_query
   \<and> flatpaks (fst (projr (get_system_state no_flatpak_tool None))) = {||}
   \<and> copr_repos (fst (projr (get_system_state no_flatpak_tool None))) = {||}
   \<and> snd (projr (get_system_state no_flatpak_tool None)) = []
   \<and> packages (fst (projr (get_system_state no_flatpak_tool None))) = {|''git'', ''vim''|}
   \<and> groups (fst (projr (get_system_state no_flatpak_tool None))) = {|''development-tools''|}
   \<and> get_system_state (without ''dnf'' no_flatpak_tool) None
       = Inr (\<lparr>packages = {||}, groups = {||}, flatpaks = {||}, copr_repos = {||}\<rparr>, [Warning_dnf])"
proof -
  have h: "ran no_flatpak_tool dnf_query" "ran no_flatpak_tool groups_query"
    "tool_absent no_flatpak_tool flatpak_query"
    by code_simp+
  have f: "failed no_flatpak_tool flatpak_query" "\<not> failed no_flatpak_tool dnf_query"
    by code_simp+
  from snapshot_degrades [of no_flatpak_tool None] h obtain S d where
    r: "get_system_state no_flatpak_tool None = Inr (S, d)"
    and d: "d = (if failed no_flatpak_tool dnf_query then [Warning_dnf] else [])"
    and fl: "failed no_flatpak_tool flatpak_query \<longrightarrow> flatpaks S = {||}"
    and co: "copr_repos S = {||}"
    and nd: "get_system_state (without ''dnf'' no_flatpak_tool) None
               = Inr (S\<lparr>packages := {||}, groups := {||}\<rparr>, [Warning_dnf])"
    by blast
  have e: "get_system_state no_flatpak_tool None =
       Inr (\<lparr>packages = {|''git'', ''vim''|}, groups = {|''development-tools''|},
             flatpaks = {||}, copr_repos = {||}\<rparr>, [])"
    by code_simp
  from r e have S: "S = \<lparr>packages = {|''git'', ''vim''|}, groups = {|''development-tools''|},
             flatpaks = {||}, copr_repos = {||}\<rparr>"
    by simp
  show ?thesis
    using h f d fl co nd by (simp add: r S)
qed

end
